theory Spec2Isabelle
  imports Main "HOL-Library.AList"
begin

section \<open>Python values, classes and exceptions\<close>

text \<open>
  A class is known by its name and the rest of its method resolution order (the names of
  its ancestors, \<open>object\<close> included). \<open>issubclass\<close> and \<open>isinstance\<close> look the
  name up in that order.
\<close>

datatype pyclass = PyClass (cls_name: string) (cls_ancestors: "string list")

definition cls_mro :: "pyclass \<Rightarrow> string list" where
  "cls_mro c = cls_name c # cls_ancestors c"

definition issubclass :: "pyclass \<Rightarrow> string \<Rightarrow> bool" where
  "issubclass c n = (n \<in> set (cls_mro c))"

text \<open>
  An exception is its class and its message. \<open>except Exception\<close> catches every class
  but those that derive from \<open>BaseException\<close> only (\<open>KeyboardInterrupt\<close>,
  \<open>SystemExit\<close>, \<open>GeneratorExit\<close>), which \<open>BaseOnly\<close> stands for;
  \<open>except BaseException\<close> catches all of them.
\<close>

datatype exc_class =
    StepInterfaceError
  | StepContextError
  | RuntimeError
  | TypeError
  | KeyError
  | OtherException string
  | BaseOnly string

datatype exc = Exc (exc_cls: exc_class) (exc_msg: string)

fun is_Exception :: "exc \<Rightarrow> bool" where
  "is_Exception (Exc (BaseOnly n) m) = False"
| "is_Exception (Exc c m) = True"

text \<open>The class of an exception, as a class among the others.\<close>

fun exc_class_type :: "exc_class \<Rightarrow> pyclass" where
  "exc_class_type StepInterfaceError =
     PyClass ''StepInterfaceError'' [''Exception'', ''BaseException'', ''object'']"
| "exc_class_type StepContextError =
     PyClass ''StepContextError'' [''Exception'', ''BaseException'', ''object'']"
| "exc_class_type RuntimeError =
     PyClass ''RuntimeError'' [''Exception'', ''BaseException'', ''object'']"
| "exc_class_type TypeError =
     PyClass ''TypeError'' [''Exception'', ''BaseException'', ''object'']"
| "exc_class_type KeyError =
     PyClass ''KeyError'' [''LookupError'', ''Exception'', ''BaseException'', ''object'']"
| "exc_class_type (OtherException n) =
     PyClass n [''Exception'', ''BaseException'', ''object'']"
| "exc_class_type (BaseOnly n) = PyClass n [''BaseException'', ''object'']"

text \<open>
  The values a step or a hook handles. \<open>PyObject c xs\<close> is an instance of the class
  \<open>c\<close>, any class that is not one of the builtin ones below; \<open>xs\<close> are its items,
  what \<open>len\<close> and iteration give, when \<open>c\<close> derives from \<open>list\<close> or \<open>tuple\<close>
  (a named tuple, say). \<open>PyUnmaterialized i\<close> is the \<open>UnmaterializedArtifact\<close>
  built from the artifact version with id \<open>i\<close>, \<open>PyException e\<close> an exception passed
  as a value, and \<open>PyStepContext\<close> the reference to the process-wide step context
  singleton.
\<close>

datatype pyval =
    PyNone
  | PyBool bool
  | PyInt int
  | PyStr string
  | PyList "pyval list"
  | PyTuple "pyval list"
  | PyObject pyclass "pyval list"
  | PyUnmaterialized nat
  | PyException exc
  | PyStepContext

fun type_of :: "pyval \<Rightarrow> pyclass" where
  "type_of PyNone = PyClass ''NoneType'' [''object'']"
| "type_of (PyBool b) = PyClass ''bool'' [''int'', ''object'']"
| "type_of (PyInt i) = PyClass ''int'' [''object'']"
| "type_of (PyStr s) = PyClass ''str'' [''object'']"
| "type_of (PyList xs) = PyClass ''list'' [''object'']"
| "type_of (PyTuple xs) = PyClass ''tuple'' [''object'']"
| "type_of (PyObject c xs) = c"
| "type_of (PyUnmaterialized i) = PyClass ''UnmaterializedArtifact'' [''object'']"
| "type_of (PyException e) = exc_class_type (exc_cls e)"
| "type_of PyStepContext = PyClass ''StepContext'' [''object'']"

definition isinstance :: "pyval \<Rightarrow> string \<Rightarrow> bool" where
  "isinstance v n = issubclass (type_of v) n"

section \<open>User accounts: \<open>zenml/models/user_management_models.py\<close>\<close>

record user_model =
  name :: string
  full_name :: string
  email :: string
  active :: bool
  password :: "string option"
  activation_token :: "string option"

text \<open>
  The password context (\<open>passlib\<close>'s \<open>CryptContext\<close> with the bcrypt scheme) is a
  library outside the repository: its two operations are parameters. \<open>verify\<close> takes
  the plain password and the hash, which may be absent.
\<close>

record crypt_context =
  verify :: "string \<Rightarrow> string option \<Rightarrow> bool"
  hash :: "string \<Rightarrow> string"

text \<open>Every call into the password context is recorded, in order.\<close>

datatype crypt_call = VerifyCall string "string option" | HashCall string

text \<open>
  \<open>_is_hashed_secret\<close>: \<open>re.match(r"^\$2[ayb]\$.{56}$", s)\<close>. The dot matches any
  character but the newline; the final \<open>$\<close> matches at the end of the string and also
  just before a newline that ends it.
\<close>

definition newline :: char where
  "newline = CHR 0x0A"

definition is_hashed_secret :: "string \<Rightarrow> bool" where
  "is_hashed_secret s =
     (case s of
        c1 # c2 # c3 # c4 # rest \<Rightarrow>
          c1 = CHR ''$'' \<and> c2 = CHR ''2''
          \<and> (c3 = CHR ''a'' \<or> c3 = CHR ''y'' \<or> c3 = CHR ''b'')
          \<and> c4 = CHR ''$''
          \<and> length (take 56 rest) = 56
          \<and> newline \<notin> set (take 56 rest)
          \<and> (drop 56 rest = [] \<or> drop 56 rest = [newline])
      | _ \<Rightarrow> False)"

definition get_hashed_secret ::
    "crypt_context \<Rightarrow> string option \<Rightarrow> string option \<times> crypt_call list" where
  "get_hashed_secret ctx secret =
     (case secret of
        None \<Rightarrow> (None, [])
      | Some s \<Rightarrow>
          if is_hashed_secret s then (Some s, [])
          else (Some (hash ctx s), [HashCall s]))"

definition get_hashed_password ::
    "crypt_context \<Rightarrow> user_model \<Rightarrow> string option \<times> crypt_call list" where
  "get_hashed_password ctx u = get_hashed_secret ctx (password u)"

text \<open>
  \<open>UserModel.verify_password\<close>: the hash stays \<open>None\<close> unless the user is given, has
  a password and is active; the verification is called in every case. The result is the
  returned boolean and the calls made into the password context.
\<close>

definition verify_password ::
    "crypt_context \<Rightarrow> string \<Rightarrow> user_model option \<Rightarrow> bool \<times> crypt_call list" where
  "verify_password ctx plain_password user =
     (let (h, calls) =
            (case user of
               None \<Rightarrow> (None, [])
             | Some u \<Rightarrow>
                 if password u \<noteq> None \<and> active u then get_hashed_password ctx u
                 else (None, []))
      in (verify ctx plain_password h, calls @ [VerifyCall plain_password h]))"

section \<open>The step runner's data: \<open>zenml/orchestrators/step_runner.py\<close>\<close>

type_synonym uuid = nat
type_synonym source = string

text \<open>
  A type annotation after \<open>resolve_type_annotation\<close>: \<open>Any\<close>, a class, or a union of
  classes. A Python \<open>dict\<close> is an association list in insertion order; \<open>d[k] = v\<close> is
  \<open>AList.update k v d\<close>, which replaces a present key in place and appends a new one.
\<close>

datatype pytype = AnyT | ClassT pyclass | UnionT "pyclass list"

text \<open>
  \<open>ArtifactConfig\<close>: the custom name, the version, and the value of its \<open>_model\<close>
  property (the model the artifact is bound to, if any). A model reference is its name
  and the version it asks for.
\<close>

record model =
  model_name :: string
  model_version :: "string option"

record artifact_config =
  ac_name :: "string option"
  ac_version :: "string option"
  ac_model :: "model option"

record output_signature =
  resolved_annotation :: pytype
  os_artifact_config :: "artifact_config option"

record materializer =
  mat_name :: string
  associated_types :: "string list"

record artifact_version =
  av_id :: uuid
  av_uri :: string
  av_data_type :: source
  av_materializer :: source

record external_artifact_configuration =
  ea_id :: "uuid option"
  ea_model :: "(uuid \<times> uuid) option"

record pipeline_run =
  pr_id :: uuid
  pr_pipeline_name :: "string option"
  pr_enable_step_logs :: "bool option"
  pr_model :: "model option"

record step_run =
  sr_id :: uuid
  sr_name :: string
  sr_enable_step_logs :: "bool option"
  sr_logs_uri :: "string option"
  sr_model :: "model option"
  sr_external_input_artifacts :: "(string \<times> external_artifact_configuration) list"

record step_run_info =
  sri_step_run_id :: uuid
  sri_step_enable_cache :: "bool option"
  sri_pipeline_enable_cache :: "bool option"
  sri_step_enable_artifact_metadata :: "bool option"
  sri_pipeline_enable_artifact_metadata :: "bool option"
  sri_step_enable_artifact_visualization :: "bool option"
  sri_pipeline_enable_artifact_visualization :: "bool option"

text \<open>The step the runner was built for: \<open>self._step\<close>, its spec and its configuration.\<close>

record output_config =
  materializer_source :: "source list"
  default_materializer_source :: "source option"

record step =
  spec_source :: source
  spec_pipeline_parameter_name :: string
  config_name :: string
  config_parameters :: "(string \<times> pyval) list"
  config_outputs :: "(string \<times> output_config) list"
  config_failure_hook_source :: "source option"
  config_success_hook_source :: "source option"

text \<open>
  The step context singleton, with what the runner gives its constructor and the
  metadata and tags that user code logged for each output.
\<close>

record step_context =
  sc_pipeline_run :: pipeline_run
  sc_step_run :: step_run
  sc_output_materializers :: "(string \<times> materializer list) list"
  sc_output_artifact_uris :: "(string \<times> string) list"
  sc_cache_enabled :: bool
  sc_output_artifact_configs :: "(string \<times> artifact_config option) list"
  sc_output_metadata :: "(string \<times> (string \<times> pyval) list) list"
  sc_output_tags :: "(string \<times> string list) list"

text \<open>
  The materializer registry (\<open>zenml/materializers\<close> is not among the sources): the
  materializers registered for types, by the name of the type, and the default entry.
\<close>

record materializer_registry =
  materializer_types :: "(string \<times> materializer) list"
  default_materializer :: materializer

text \<open>
  Modelled from the spec: \<open>materializer_registry[data_type]\<close>, the lookup in "a
  global registry keyed by exact runtime type, with an explicitly settable default entry
  used when no exact match exists".
\<close>

definition registry_getitem :: "materializer_registry \<Rightarrow> pyclass \<Rightarrow> materializer" where
  "registry_getitem reg data_type =
     (case map_of (materializer_types reg) (cls_name data_type) of
        Some m \<Rightarrow> m
      | None \<Rightarrow> default_materializer reg)"

text \<open>The arguments of one \<open>save_artifact\<close> call.\<close>

record save_request =
  sv_name :: string
  sv_data :: pyval
  sv_materializer :: materializer
  sv_uri :: string
  sv_extract_metadata :: bool
  sv_include_visualizations :: bool
  sv_has_custom_name :: bool
  sv_version :: "string option"
  sv_tags :: "string list"
  sv_user_metadata :: "(string \<times> pyval) list"
  sv_manual_save :: bool

text \<open>One \<open>ModelVersionPipelineRunRequest\<close> sent to the store.\<close>

record run_link_request =
  rl_pipeline_run :: uuid
  rl_model :: uuid
  rl_model_version :: uuid

datatype log_level = Debug | Info | Warning | Error

text \<open>
  The process and store state the runner reads and writes: the step context singleton
  (\<open>None\<close> when cleared), the materializer registry, the artifacts saved, the
  artifact and run links created, the step-run metadata and final status published, and
  the log.
\<close>

record runner_state =
  st_step_context :: "step_context option"
  st_registry :: materializer_registry
  st_saved_artifacts :: "save_request list"
  st_artifact_links :: "(string \<times> uuid) list list"
  st_run_links :: "run_link_request list"
  st_published_metadata :: "(string \<times> pyval) list list"
  st_published_success :: "(string \<times> uuid) list option"
  st_log :: "(log_level \<times> string) list"

text \<open>
  What \<open>_load_step\<close> returns, as far as the runner reads it: the entrypoint's argument
  names and annotations (\<open>inspect.getfullargspec\<close>), the output annotations that
  \<open>parse_return_type_annotations\<close> derives from it, and the entrypoint itself. The
  entrypoint is user code: it returns a value or raises, and on its way it may read and
  change the step context singleton (log metadata and tags for an output, say). What
  else user code does is outside what this model follows.
\<close>

record step_instance =
  entrypoint_args :: "string list"
  entrypoint_annotations :: "(string \<times> pytype) list"
  entrypoint_outputs :: "(string \<times> output_signature) list"
  call_entrypoint ::
    "(string \<times> pyval) list \<Rightarrow> step_context option \<Rightarrow> (exc + pyval) \<times> step_context option"

text \<open>A hook: its argument names, their annotations, and its body.\<close>

record hook =
  hook_args :: "string list"
  hook_annotations :: "(string \<times> pytype) list"
  hook_call ::
    "(string \<times> pyval) list \<Rightarrow> step_context option \<Rightarrow> (exc + unit) \<times> step_context option"

text \<open>
  The collaborators outside this file, each given by what it returns: the source loader
  (for steps, materializer classes, data types and hooks), the stack, the materializers'
  \<open>load\<close>, \<open>parse_obj\<close> of parameter classes, the model-version resolver, and the
  store operations. A call that can raise returns the exception on the left. The two
  flags are the value of \<open>handle_bool_env_var(ENV_ZENML_DISABLE_STEP_LOGS_STORAGE, False)\<close>
  and of \<open>redirected.get()\<close>.
\<close>

record collaborators =
  disable_step_logs_storage :: bool
  logs_redirected :: bool
  load_from_source :: "source \<Rightarrow> exc + step_instance"
  load_and_validate_class :: "source \<Rightarrow> exc + materializer"
  source_load_class :: "source \<Rightarrow> exc + pyclass"
  source_load_hook :: "source \<Rightarrow> exc + hook"
  prepare_step_run :: "step_run_info \<Rightarrow> exc option"
  get_step_run_metadata :: "step_run_info \<Rightarrow> exc + (string \<times> pyval) list"
  publish_step_run_metadata :: "uuid \<Rightarrow> (string \<times> pyval) list \<Rightarrow> exc option"
  cleanup_step_run :: "step_run_info \<Rightarrow> bool \<Rightarrow> exc option"
  materializer_load :: "materializer \<Rightarrow> string \<Rightarrow> pyclass \<Rightarrow> exc + pyval"
  parse_obj :: "pyclass \<Rightarrow> pyval \<Rightarrow> exc + pyval"
  get_or_create_model_version :: "model \<Rightarrow> exc + (uuid \<times> uuid)"
  save_artifact :: "save_request \<Rightarrow> exc + uuid"
  link_step_artifacts_to_model :: "(string \<times> uuid) list \<Rightarrow> exc option"
  create_model_version_pipeline_run_link :: "run_link_request \<Rightarrow> exc option"
  publish_successful_step_run :: "uuid \<Rightarrow> (string \<times> uuid) list \<Rightarrow> exc option"

type_synonym 'a outcome = "(exc + 'a) \<times> runner_state"

definition log_msg :: "log_level \<Rightarrow> string \<Rightarrow> runner_state \<Rightarrow> runner_state" where
  "log_msg lvl m s = s\<lparr>st_log := st_log s @ [(lvl, m)]\<rparr>"

text \<open>\<open>d[k]\<close> on a dictionary raises \<open>KeyError\<close> for a missing key.\<close>

definition dict_get :: "(string \<times> 'v) list \<Rightarrow> string \<Rightarrow> exc + 'v" where
  "dict_get d k = (case map_of d k of None \<Rightarrow> Inl (Exc KeyError k) | Some v \<Rightarrow> Inr v)"

section \<open>Step logging\<close>

text \<open>
  Modelled from the spec: \<open>is_setting_enabled\<close> (\<open>zenml/orchestrators/utils.py\<close> is not
  among the sources). The spec gives it as a two-level override: "per-step setting, else
  per-pipeline setting, else default-enabled".
\<close>

definition is_setting_enabled :: "bool option \<Rightarrow> bool option \<Rightarrow> bool" where
  "is_setting_enabled is_enabled_on_step is_enabled_on_pipeline =
     (case is_enabled_on_step of
        Some b \<Rightarrow> b
      | None \<Rightarrow> (case is_enabled_on_pipeline of Some b \<Rightarrow> b | None \<Rightarrow> True))"

text \<open>
  The first lines of \<open>StepRunner.run\<close>. \<open>disable_logs_storage\<close> is the value of
  \<open>handle_bool_env_var(ENV_ZENML_DISABLE_STEP_LOGS_STORAGE, False)\<close>.
\<close>

definition step_logging_enabled :: "bool \<Rightarrow> step_run \<Rightarrow> pipeline_run \<Rightarrow> bool" where
  "step_logging_enabled disable_logs_storage step_run pipeline_run =
     (if disable_logs_storage then False
      else is_setting_enabled (sr_enable_step_logs step_run) (pr_enable_step_logs pipeline_run))"

datatype logs_context = NullContext | StepLogsStorageContext string

definition select_logs_context ::
    "bool \<Rightarrow> bool \<Rightarrow> step_run \<Rightarrow> runner_state \<Rightarrow> logs_context \<times> runner_state" where
  "select_logs_context enabled redirected step_run s =
     (if enabled \<and> \<not> redirected then
        (case sr_logs_uri step_run of
           Some u \<Rightarrow> (StepLogsStorageContext u, s)
         | None \<Rightarrow>
             (NullContext,
              log_msg Debug ''There is no LogsResponseModel prepared for the step.'' s))
      else (NullContext, s))"

section \<open>Calls that may raise, in sequence\<close>

text \<open>
  A runner operation returns its result, or the exception it raised, and the state it
  left. \<open>and_then\<close> runs the next operation on a result and passes an exception on
  with the state reached so far.
\<close>

definition and_then :: "'a outcome \<Rightarrow> ('a \<Rightarrow> runner_state \<Rightarrow> 'b outcome) \<Rightarrow> 'b outcome" where
  "and_then r f = (case r of (Inl e, s) \<Rightarrow> (Inl e, s) | (Inr x, s) \<Rightarrow> f x s)"

text \<open>
  A call to the store or the stack that returns nothing: when it raises, the state is as
  before; when it returns, the state records its effect.
\<close>

definition effect ::
    "exc option \<Rightarrow> (runner_state \<Rightarrow> runner_state) \<Rightarrow> runner_state \<Rightarrow> unit outcome" where
  "effect r record_effect s =
     (case r of Some e \<Rightarrow> (Inl e, s) | None \<Rightarrow> (Inr (), record_effect s))"

text \<open>A call of user code, which works on the step context singleton.\<close>

definition user_call ::
    "(step_context option \<Rightarrow> (exc + 'a) \<times> step_context option) \<Rightarrow> runner_state \<Rightarrow> 'a outcome"
  where
  "user_call f s =
     (case f (st_step_context s) of (r, ctx) \<Rightarrow> (r, s\<lparr>st_step_context := ctx\<rparr>))"

section \<open>The step context\<close>

text \<open>
  \<open>zenml/new/steps/step_context.py\<close> is not among the sources. The spec has of the
  step context that there is "exactly one live instance per executing step; bound at step
  start, explicitly torn down at step end"; the operations the runner calls are
  modelled on that.
\<close>

text \<open>
  Modelled from the spec: \<open>StepContext._clear\<close>, which tears the live instance down.
\<close>

definition step_context_clear :: "runner_state \<Rightarrow> runner_state" where
  "step_context_clear s = s\<lparr>st_step_context := None\<rparr>"

text \<open>
  Modelled from the spec: \<open>get_step_context\<close>, which returns the live instance and
  raises when there is none.
\<close>

definition get_step_context :: "runner_state \<Rightarrow> exc + step_context" where
  "get_step_context s =
     (case st_step_context s of
        Some ctx \<Rightarrow> Inr ctx
      | None \<Rightarrow> Inl (Exc RuntimeError ''The step context is only available inside a step.''))"

text \<open>
  Modelled from the spec: \<open>StepContext._get_output(name).artifact_config\<close>, the
  artifact configuration the context was given for an output; an output that the context
  does not know raises \<open>StepContextError\<close>.
\<close>

definition context_get_output :: "step_context \<Rightarrow> string \<Rightarrow> exc + artifact_config option" where
  "context_get_output ctx output_name =
     (case map_of (sc_output_artifact_configs ctx) output_name of
        Some cfg \<Rightarrow> Inr cfg
      | None \<Rightarrow> Inl (Exc StepContextError output_name))"

text \<open>
  Modelled from the spec: \<open>StepContext.model\<close>, the step's declared model reference,
  "falling back to the pipeline's declared model reference if the step declares none";
  when neither declares one it raises the \<open>StepContextError\<close> that the runner
  catches.
\<close>

definition context_model :: "step_context \<Rightarrow> exc + model" where
  "context_model ctx =
     (case sr_model (sc_step_run ctx) of
        Some m \<Rightarrow> Inr m
      | None \<Rightarrow>
          (case pr_model (sc_pipeline_run ctx) of
             Some m \<Rightarrow> Inr m
           | None \<Rightarrow> Inl (Exc StepContextError ''Unable to get Model in step.'')))"

text \<open>
  Modelled from the spec: \<open>StepContext.get_output_metadata\<close>, the "metadata
  accumulated on the StepContext during execution" for an output.
\<close>

definition get_output_metadata :: "step_context \<Rightarrow> string \<Rightarrow> (string \<times> pyval) list" where
  "get_output_metadata ctx output_name =
     (case map_of (sc_output_metadata ctx) output_name of Some md \<Rightarrow> md | None \<Rightarrow> [])"

text \<open>
  Modelled from the spec: \<open>StepContext.get_output_tags\<close>, the tags accumulated on
  the step context for an output.
\<close>

definition get_output_tags :: "step_context \<Rightarrow> string \<Rightarrow> string list" where
  "get_output_tags ctx output_name =
     (case map_of (sc_output_tags ctx) output_name of Some tags \<Rightarrow> tags | None \<Rightarrow> [])"

section \<open>Output validation: \<open>StepRunner._validate_outputs\<close>\<close>

text \<open>
  \<open>isinstance(return_values, (list, tuple))\<close>: true of lists, of tuples and of the
  instances of their subclasses.
\<close>

definition is_list_or_tuple :: "pyval \<Rightarrow> bool" where
  "is_list_or_tuple v = (isinstance v ''list'' \<or> isinstance v ''tuple'')"

text \<open>The items of a list or tuple: \<open>len\<close> is their number, \<open>zip\<close> goes through them.\<close>

fun items_of :: "pyval \<Rightarrow> pyval list" where
  "items_of (PyList xs) = xs"
| "items_of (PyTuple xs) = xs"
| "items_of (PyObject c xs) = xs"
| "items_of v = []"

text \<open>
  The type check of one output: \<open>Any\<close> passes; a union is checked against its members
  (\<open>get_args\<close>); a class by \<open>isinstance\<close>.
\<close>

fun output_type_ok :: "pyval \<Rightarrow> pytype \<Rightarrow> bool" where
  "output_type_ok return_value AnyT = True"
| "output_type_ok return_value (UnionT cs) = list_ex (\<lambda>c. isinstance return_value (cls_name c)) cs"
| "output_type_ok return_value (ClassT c) = isinstance return_value (cls_name c)"

text \<open>
  The loop over \<open>zip(return_values, output_annotations.items())\<close>. The messages keep the
  fixed text and the names of the source's messages, not the values they print.
\<close>

fun validate_loop ::
    "string \<Rightarrow> (pyval \<times> string \<times> output_signature) list \<Rightarrow> (string \<times> pyval) list
     \<Rightarrow> exc + (string \<times> pyval) list" where
  "validate_loop step_name [] validated_outputs = Inr validated_outputs"
| "validate_loop step_name ((return_value, output_name, output_annotation) # rest)
       validated_outputs =
     (if output_type_ok return_value (resolved_annotation output_annotation)
      then validate_loop step_name rest
             (AList.update output_name return_value validated_outputs)
      else Inl (Exc StepInterfaceError
                  (''Wrong type for output '' @ output_name @ '' of step '' @ step_name)))"

definition validate_outputs ::
    "step \<Rightarrow> pyval \<Rightarrow> (string \<times> output_signature) list \<Rightarrow> exc + (string \<times> pyval) list" where
  "validate_outputs stp return_values output_annotations =
     (let step_name = spec_pipeline_parameter_name stp in
      if length output_annotations = 0 then
        (if return_values \<noteq> PyNone
         then Inl (Exc StepInterfaceError
                     (''Wrong step function output type for step '' @ step_name
                      @ '': Expected no outputs but the function returned something''))
         else Inr [])
      else
        (let return_values =
               (if length output_annotations = 1 then PyList [return_values]
                else return_values)
         in if \<not> is_list_or_tuple return_values then
              Inl (Exc StepInterfaceError
                     (''Wrong step function output type for step '' @ step_name
                      @ '': Expected multiple outputs but the function did not return''
                      @ '' a list or tuple''))
            else if length output_annotations \<noteq> length (items_of return_values) then
              Inl (Exc StepInterfaceError
                     (''Wrong amount of step function outputs for step '' @ step_name))
            else
              validate_loop step_name (zip (items_of return_values) output_annotations) []))"

section \<open>Materializer selection and output storage: \<open>StepRunner._store_output_artifacts\<close>\<close>

text \<open>
  Modelled from the spec: what makes a materializer match a type (\<open>zenml/materializers\<close>
  is not among the sources). The registry "maps a runtime value's type to the codec
  responsible" for it: a materializer matches a runtime type when one of its associated
  types is that type or one of its ancestors.
\<close>

definition can_handle_type :: "materializer \<Rightarrow> pyclass \<Rightarrow> bool" where
  "can_handle_type m data_type = list_ex (issubclass data_type) (associated_types m)"

text \<open>
  Modelled from the spec: \<open>materializer_utils.select_materializer\<close>
  (\<open>zenml/utils/materializer_utils.py\<close> is not among the sources). "Selection is
  deterministic: first matching declared candidate wins", "candidates are tried in
  declaration order". With no matching candidate the selection raises.
\<close>

definition select_materializer :: "pyclass \<Rightarrow> materializer list \<Rightarrow> exc + materializer" where
  "select_materializer data_type materializer_classes =
     (case find (\<lambda>m. can_handle_type m data_type) materializer_classes of
        Some m \<Rightarrow> Inr m
      | None \<Rightarrow> Inl (Exc RuntimeError ''No materializer found for the data type.''))"

text \<open>
  Lines 562 to 592: the materializer of one output. With declared candidates it is
  \<open>select_materializer\<close>'s choice. With none, the output's default materializer source,
  when set, is loaded and written into the registry's default entry (where it stays for
  the outputs that follow), and the registry is asked.
\<close>

definition select_output_materializer ::
    "collaborators \<Rightarrow> step \<Rightarrow> (string \<times> materializer list) list \<Rightarrow> string \<Rightarrow> pyval
     \<Rightarrow> runner_state \<Rightarrow> materializer outcome" where
  "select_output_materializer c stp output_materializers output_name return_value s =
     (let data_type = type_of return_value in
      and_then (dict_get output_materializers output_name, s) (\<lambda>materializer_classes s.
        if materializer_classes \<noteq> [] then
          (select_materializer data_type materializer_classes, s)
        else
          and_then (dict_get (config_outputs stp) output_name, s) (\<lambda>output s.
          and_then
            (case default_materializer_source output of
               Some default_source \<Rightarrow>
                 (case load_and_validate_class c default_source of
                    Inl e \<Rightarrow> (Inl e, s)
                  | Inr default_materializer_class \<Rightarrow>
                      (Inr (),
                       s\<lparr>st_registry :=
                           (st_registry s)\<lparr>default_materializer := default_materializer_class\<rparr>\<rparr>))
             | None \<Rightarrow> (Inr (), s))
            (\<lambda>_ s. (Inr (registry_getitem (st_registry s) data_type), s)))))"

text \<open>Lines 594 to 612: whether the output has a custom name, its version, and its name.\<close>

definition has_custom_name :: "artifact_config option \<Rightarrow> bool" where
  "has_custom_name artifact_config =
     (case artifact_config of
        Some cfg \<Rightarrow> (case ac_name cfg of Some n \<Rightarrow> n \<noteq> [] | None \<Rightarrow> False)
      | None \<Rightarrow> False)"

definition artifact_version_of :: "artifact_config option \<Rightarrow> string option" where
  "artifact_version_of artifact_config =
     (case artifact_config of Some cfg \<Rightarrow> ac_version cfg | None \<Rightarrow> None)"

definition output_artifact_name :: "step_context \<Rightarrow> artifact_config option \<Rightarrow> string \<Rightarrow> string" where
  "output_artifact_name step_context artifact_config output_name =
     (if has_custom_name artifact_config then output_name
      else
        (let pipeline_name =
               (case pr_pipeline_name (sc_pipeline_run step_context) of
                  Some n \<Rightarrow> n
                | None \<Rightarrow> ''unlisted'');
             step_name = sr_name (sc_step_run step_context)
         in pipeline_name @ ''::'' @ step_name @ ''::'' @ output_name))"

text \<open>The body of the loop for one output, and the loop over \<open>output_data.items()\<close>.\<close>

definition store_output_artifact ::
    "collaborators \<Rightarrow> step \<Rightarrow> step_context \<Rightarrow> (string \<times> materializer list) list
     \<Rightarrow> (string \<times> string) list \<Rightarrow> (string \<times> output_signature) list \<Rightarrow> bool \<Rightarrow> bool
     \<Rightarrow> string \<Rightarrow> pyval \<Rightarrow> runner_state \<Rightarrow> uuid outcome" where
  "store_output_artifact c stp step_context output_materializers output_artifact_uris
       output_annotations artifact_metadata_enabled artifact_visualization_enabled
       output_name return_value s =
     and_then
       (select_output_materializer c stp output_materializers output_name return_value s)
       (\<lambda>materializer_class s.
     and_then (dict_get output_artifact_uris output_name, s) (\<lambda>uri s.
     and_then (dict_get output_annotations output_name, s) (\<lambda>output_annotation s.
       (let artifact_config = os_artifact_config output_annotation;
            request =
              \<lparr>sv_name = output_artifact_name step_context artifact_config output_name,
               sv_data = return_value,
               sv_materializer = materializer_class,
               sv_uri = uri,
               sv_extract_metadata = artifact_metadata_enabled,
               sv_include_visualizations = artifact_visualization_enabled,
               sv_has_custom_name = has_custom_name artifact_config,
               sv_version = artifact_version_of artifact_config,
               sv_tags = get_output_tags step_context output_name,
               sv_user_metadata = get_output_metadata step_context output_name,
               sv_manual_save = False\<rparr>
        in case save_artifact c request of
             Inl e \<Rightarrow> (Inl e, s)
           | Inr artifact_id \<Rightarrow>
               (Inr artifact_id,
                s\<lparr>st_saved_artifacts := st_saved_artifacts s @ [request]\<rparr>)))))"

fun store_loop ::
    "collaborators \<Rightarrow> step \<Rightarrow> step_context \<Rightarrow> (string \<times> materializer list) list
     \<Rightarrow> (string \<times> string) list \<Rightarrow> (string \<times> output_signature) list \<Rightarrow> bool \<Rightarrow> bool
     \<Rightarrow> (string \<times> pyval) list \<Rightarrow> (string \<times> uuid) list \<Rightarrow> runner_state
     \<Rightarrow> (string \<times> uuid) list outcome" where
  "store_loop c stp step_context output_materializers output_artifact_uris
       output_annotations md_enabled vis_enabled [] output_artifacts s =
     (Inr output_artifacts, s)"
| "store_loop c stp step_context output_materializers output_artifact_uris
       output_annotations md_enabled vis_enabled ((output_name, return_value) # rest)
       output_artifacts s =
     and_then
       (store_output_artifact c stp step_context output_materializers output_artifact_uris
          output_annotations md_enabled vis_enabled output_name return_value s)
       (\<lambda>artifact_id s.
          store_loop c stp step_context output_materializers output_artifact_uris
            output_annotations md_enabled vis_enabled rest
            (AList.update output_name artifact_id output_artifacts) s)"

definition store_output_artifacts ::
    "collaborators \<Rightarrow> step \<Rightarrow> (string \<times> pyval) list \<Rightarrow> (string \<times> materializer list) list
     \<Rightarrow> (string \<times> string) list \<Rightarrow> (string \<times> output_signature) list \<Rightarrow> bool \<Rightarrow> bool
     \<Rightarrow> runner_state \<Rightarrow> (string \<times> uuid) list outcome" where
  "store_output_artifacts c stp output_data output_materializers output_artifact_uris
       output_annotations artifact_metadata_enabled artifact_visualization_enabled s =
     and_then (get_step_context s, s) (\<lambda>step_context s.
       store_loop c stp step_context output_materializers output_artifact_uris
         output_annotations artifact_metadata_enabled artifact_visualization_enabled
         output_data [] s)"

section \<open>Input resolution: \<open>StepRunner._parse_inputs\<close>\<close>

text \<open>
  \<open>resolve_type_annotation(annotations.get(arg, None))\<close>. The annotations are given
  in the form that \<open>resolve_type_annotation\<close> (\<open>zenml/steps/utils.py\<close>, not among
  the sources) leaves them in; an argument without annotation has \<open>None\<close>.
\<close>

definition annotation_of :: "(string \<times> pytype) list \<Rightarrow> string \<Rightarrow> pytype option" where
  "annotation_of annotations arg = map_of annotations arg"

text \<open>\<open>inspect.isclass(arg_type) and issubclass(arg_type, StepContext)\<close>.\<close>

definition is_step_context_class :: "pytype option \<Rightarrow> bool" where
  "is_step_context_class arg_type =
     (case arg_type of Some (ClassT cl) \<Rightarrow> issubclass cl ''StepContext'' | _ \<Rightarrow> False)"

text \<open>\<open>if args and args[0] == "self": args.pop(0)\<close>.\<close>

definition drop_self :: "string list \<Rightarrow> string list" where
  "drop_self args = (case args of a # rest \<Rightarrow> if a = ''self'' then rest else args | [] \<Rightarrow> [])"

text \<open>
  Modelled from the spec: the materializer's \<open>validate_type_compatibility\<close>, "a
  compatibility check that fails with a TypeMismatch if the stored runtime type is
  incompatible with the declared annotation". It raises, \<open>TypeError\<close> here, unless
  the materializer can handle the type; with no annotation at all (\<open>None\<close>) there is
  no class to check and it raises. The result is the class it has checked.
\<close>

definition validate_type_compatibility :: "materializer \<Rightarrow> pyclass option \<Rightarrow> exc + pyclass" where
  "validate_type_compatibility m data_class =
     (case data_class of
        None \<Rightarrow> Inl (Exc TypeError ''Unable to handle the data type.'')
      | Some cl \<Rightarrow>
          if can_handle_type m cl then Inr cl
          else Inl (Exc TypeError ''Unable to handle the data type.''))"

text \<open>
  \<open>_load_input_artifact\<close>. An \<open>UnmaterializedArtifact\<close> annotation gets the
  artifact itself; \<open>Any\<close> and unions take the data type recorded with the artifact;
  the artifact's materializer is loaded, checked against the type and asked to load.
\<close>

definition load_input_artifact ::
    "collaborators \<Rightarrow> artifact_version \<Rightarrow> pytype option \<Rightarrow> exc + pyval" where
  "load_input_artifact c artifact data_type =
     (if (case data_type of
            Some (ClassT cl) \<Rightarrow> cls_name cl = ''UnmaterializedArtifact''
          | _ \<Rightarrow> False)
      then Inr (PyUnmaterialized (av_id artifact))
      else
        (case (case data_type of
                 Some (ClassT cl) \<Rightarrow> Inr (Some cl)
               | None \<Rightarrow> Inr None
               | _ \<Rightarrow> map_sum id Some (source_load_class c (av_data_type artifact))) of
           Inl e \<Rightarrow> Inl e
         | Inr data_class \<Rightarrow>
             (case load_and_validate_class c (av_materializer artifact) of
                Inl e \<Rightarrow> Inl e
              | Inr materializer_class \<Rightarrow>
                  (case validate_type_compatibility materializer_class data_class of
                     Inl e \<Rightarrow> Inl e
                   | Inr cl \<Rightarrow>
                       materializer_load c materializer_class (av_uri artifact) cl))))"

text \<open>The branch of the loop for one argument, and the loop.\<close>

definition parse_input ::
    "collaborators \<Rightarrow> step \<Rightarrow> (string \<times> pytype) list
     \<Rightarrow> (string \<times> artifact_version) list \<Rightarrow> string \<Rightarrow> runner_state \<Rightarrow> pyval outcome" where
  "parse_input c stp annotations input_artifacts arg s =
     (let arg_type = annotation_of annotations arg in
      if is_step_context_class arg_type then
        (let s' = log_msg Warning
                    (''Passing a `StepContext` as an argument to a step function is deprecated: ''
                     @ config_name stp) s
         in (map_sum id (\<lambda>_. PyStepContext) (get_step_context s'), s'))
      else
        (case map_of input_artifacts arg of
           Some artifact \<Rightarrow> (load_input_artifact c artifact arg_type, s)
         | None \<Rightarrow>
             (case map_of (config_parameters stp) arg of
                Some v \<Rightarrow> (Inr v, s)
              | None \<Rightarrow>
                  (Inl (Exc RuntimeError
                          (''Unable to find value for step function argument '' @ arg)), s))))"

fun parse_inputs_loop ::
    "collaborators \<Rightarrow> step \<Rightarrow> (string \<times> pytype) list
     \<Rightarrow> (string \<times> artifact_version) list \<Rightarrow> string list \<Rightarrow> (string \<times> pyval) list
     \<Rightarrow> runner_state \<Rightarrow> (string \<times> pyval) list outcome" where
  "parse_inputs_loop c stp annotations input_artifacts [] function_params s =
     (Inr function_params, s)"
| "parse_inputs_loop c stp annotations input_artifacts (arg # rest) function_params s =
     and_then (parse_input c stp annotations input_artifacts arg s) (\<lambda>v s.
       parse_inputs_loop c stp annotations input_artifacts rest
         (AList.update arg v function_params) s)"

definition parse_inputs ::
    "collaborators \<Rightarrow> step \<Rightarrow> string list \<Rightarrow> (string \<times> pytype) list
     \<Rightarrow> (string \<times> artifact_version) list \<Rightarrow> runner_state
     \<Rightarrow> (string \<times> pyval) list outcome" where
  "parse_inputs c stp args annotations input_artifacts s =
     parse_inputs_loop c stp annotations input_artifacts (drop_self args) [] s"

section \<open>Hooks: \<open>_parse_hook_inputs\<close> and \<open>load_and_run_hook\<close>\<close>

text \<open>
  \<open>issubclass\<close> on an annotation that is not a class raises \<open>TypeError\<close>, the error of
  the last branch as well.
\<close>

definition parse_hook_input ::
    "collaborators \<Rightarrow> step \<Rightarrow> (string \<times> pytype) list \<Rightarrow> exc option \<Rightarrow> string
     \<Rightarrow> runner_state \<Rightarrow> pyval outcome" where
  "parse_hook_input c stp annotations step_exception arg s =
     (case annotation_of annotations arg of
        Some (ClassT cl) \<Rightarrow>
          if issubclass cl ''BaseParameters'' then
            (case dict_get (config_parameters stp) arg of
               Inl e \<Rightarrow> (Inl e, s)
             | Inr v \<Rightarrow> (parse_obj c cl v, s))
          else if issubclass cl ''StepContext'' then
            (let s' = log_msg Warning
                        (''Passing a `StepContext` as an argument to a hook function is deprecated: ''
                         @ config_name stp) s
             in (map_sum id (\<lambda>_. PyStepContext) (get_step_context s'), s'))
          else if issubclass cl ''BaseException'' then
            (Inr (case step_exception of Some e \<Rightarrow> PyException e | None \<Rightarrow> PyNone), s)
          else
            (Inl (Exc TypeError
                    ''Hook functions can only take arguments of type `BaseParameters`, or `BaseException`''), s)
      | _ \<Rightarrow> (Inl (Exc TypeError ''issubclass() arg 1 must be a class''), s))"

fun parse_hook_inputs_loop ::
    "collaborators \<Rightarrow> step \<Rightarrow> (string \<times> pytype) list \<Rightarrow> exc option \<Rightarrow> string list
     \<Rightarrow> (string \<times> pyval) list \<Rightarrow> runner_state \<Rightarrow> (string \<times> pyval) list outcome" where
  "parse_hook_inputs_loop c stp annotations step_exception [] function_params s =
     (Inr function_params, s)"
| "parse_hook_inputs_loop c stp annotations step_exception (arg # rest) function_params s =
     and_then (parse_hook_input c stp annotations step_exception arg s) (\<lambda>v s.
       parse_hook_inputs_loop c stp annotations step_exception rest
         (AList.update arg v function_params) s)"

definition parse_hook_inputs ::
    "collaborators \<Rightarrow> step \<Rightarrow> string list \<Rightarrow> (string \<times> pytype) list \<Rightarrow> exc option
     \<Rightarrow> runner_state \<Rightarrow> (string \<times> pyval) list outcome" where
  "parse_hook_inputs c stp args annotations step_exception s =
     parse_hook_inputs_loop c stp annotations step_exception (drop_self args) [] s"

text \<open>The body of the \<open>try\<close> in \<open>load_and_run_hook\<close>: what loading and running raise.\<close>

definition hook_try_body ::
    "collaborators \<Rightarrow> step \<Rightarrow> source \<Rightarrow> exc option \<Rightarrow> runner_state \<Rightarrow> unit outcome" where
  "hook_try_body c stp hook_source step_exception s =
     and_then (source_load_hook c hook_source, s) (\<lambda>hk s.
     and_then
       (parse_hook_inputs c stp (hook_args hk) (hook_annotations hk) step_exception s)
       (\<lambda>function_params s.
          user_call (hook_call hk function_params) (log_msg Debug ''Running hook'' s)))"

text \<open>
  \<open>load_and_run_hook\<close>: \<open>except Exception\<close> catches and logs; an exception of
  another kind goes on to the caller.
\<close>

definition load_and_run_hook ::
    "collaborators \<Rightarrow> step \<Rightarrow> source \<Rightarrow> exc option \<Rightarrow> runner_state \<Rightarrow> unit outcome" where
  "load_and_run_hook c stp hook_source step_exception s =
     (case hook_try_body c stp hook_source step_exception s of
        (Inr u, s') \<Rightarrow> (Inr (), s')
      | (Inl e, s') \<Rightarrow>
          if is_Exception e then
            (Inr (),
             log_msg Error
               (''Failed to load hook source with exception: '' @ hook_source @ '': ''
                @ exc_msg e) s')
          else (Inl e, s'))"

section \<open>Linking the pipeline run to model versions\<close>

text \<open>
  A Python \<open>set\<close> of pairs is a list without repetitions, in the order of first
  insertion; the store is sent one request per element.
\<close>

definition set_add :: "'a \<Rightarrow> 'a list \<Rightarrow> 'a list" where
  "set_add x xs = (if x \<in> set xs then xs else xs @ [x])"

text \<open>\<open>_prepare_model_context_for_step\<close> and \<open>_get_model_versions_from_config\<close>.\<close>

definition prepare_model_context_for_step :: "collaborators \<Rightarrow> runner_state \<Rightarrow> exc + unit" where
  "prepare_model_context_for_step c s =
     (case (case get_step_context s of
              Inl e \<Rightarrow> Inl e
            | Inr ctx \<Rightarrow>
                (case context_model ctx of
                   Inl e \<Rightarrow> Inl e
                 | Inr m \<Rightarrow> map_sum id (\<lambda>_. ()) (get_or_create_model_version c m))) of
        Inl e \<Rightarrow> if exc_cls e = StepContextError then Inr () else Inl e
      | Inr u \<Rightarrow> Inr ())"

definition get_model_versions_from_config ::
    "collaborators \<Rightarrow> runner_state \<Rightarrow> exc + (uuid \<times> uuid) list" where
  "get_model_versions_from_config c s =
     (case (case get_step_context s of
              Inl e \<Rightarrow> Inl e
            | Inr ctx \<Rightarrow>
                (case context_model ctx of
                   Inl e \<Rightarrow> Inl e
                 | Inr mc \<Rightarrow> get_or_create_model_version c mc)) of
        Inl e \<Rightarrow> if exc_cls e = StepContextError then Inr [] else Inl e
      | Inr mv \<Rightarrow> Inr [mv])"

text \<open>
  The loop of \<open>_get_model_versions_from_artifacts\<close>. An artifact without a
  configuration is passed over; one whose configuration has no model ends the loop
  (\<open>break\<close>).
\<close>

fun get_model_versions_loop ::
    "collaborators \<Rightarrow> runner_state \<Rightarrow> string list \<Rightarrow> (uuid \<times> uuid) list
     \<Rightarrow> exc + (uuid \<times> uuid) list" where
  "get_model_versions_loop c s [] models = Inr models"
| "get_model_versions_loop c s (artifact_name # rest) models =
     (case get_step_context s of
        Inl e \<Rightarrow> Inl e
      | Inr ctx \<Rightarrow>
          (case context_get_output ctx artifact_name of
             Inl e \<Rightarrow> Inl e
           | Inr None \<Rightarrow> get_model_versions_loop c s rest models
           | Inr (Some cfg) \<Rightarrow>
               (case ac_model cfg of
                  Some m \<Rightarrow>
                    (case get_or_create_model_version c m of
                       Inl e \<Rightarrow> Inl e
                     | Inr model_version_response \<Rightarrow>
                         get_model_versions_loop c s rest
                           (set_add model_version_response models))
                | None \<Rightarrow> Inr models)))"

definition get_model_versions_from_artifacts ::
    "collaborators \<Rightarrow> runner_state \<Rightarrow> string list \<Rightarrow> exc + (uuid \<times> uuid) list" where
  "get_model_versions_from_artifacts c s artifact_names =
     get_model_versions_loop c s artifact_names []"

text \<open>The loop \<open>for model in models\<close> that both linking methods end with.\<close>

fun create_run_links ::
    "collaborators \<Rightarrow> pipeline_run \<Rightarrow> (uuid \<times> uuid) list \<Rightarrow> runner_state \<Rightarrow> unit outcome" where
  "create_run_links c pipeline_run [] s = (Inr (), s)"
| "create_run_links c pipeline_run (m # rest) s =
     (let request = \<lparr>rl_pipeline_run = pr_id pipeline_run, rl_model = fst m,
                     rl_model_version = snd m\<rparr>
      in and_then
           (effect (create_model_version_pipeline_run_link c request)
              (\<lambda>s. s\<lparr>st_run_links := st_run_links s @ [request]\<rparr>) s)
           (\<lambda>_ s. create_run_links c pipeline_run rest s))"

definition link_pipeline_run_to_model_from_context ::
    "collaborators \<Rightarrow> pipeline_run \<Rightarrow> runner_state \<Rightarrow> unit outcome" where
  "link_pipeline_run_to_model_from_context c pipeline_run s =
     and_then (get_model_versions_from_config c s, s) (\<lambda>models s.
       create_run_links c pipeline_run models s)"

fun add_external_models ::
    "external_artifact_configuration list \<Rightarrow> (uuid \<times> uuid) list \<Rightarrow> (uuid \<times> uuid) list" where
  "add_external_models [] models = models"
| "add_external_models (external_artifact # rest) models =
     (case ea_model external_artifact of
        Some m \<Rightarrow> add_external_models rest (set_add m models)
      | None \<Rightarrow> add_external_models rest models)"

definition link_pipeline_run_to_model_from_artifacts ::
    "collaborators \<Rightarrow> pipeline_run \<Rightarrow> string list \<Rightarrow> external_artifact_configuration list
     \<Rightarrow> runner_state \<Rightarrow> unit outcome" where
  "link_pipeline_run_to_model_from_artifacts c pipeline_run artifact_names
       external_artifacts s =
     and_then (get_model_versions_from_artifacts c s artifact_names, s) (\<lambda>models s.
       create_run_links c pipeline_run (add_external_models external_artifacts models) s)"

section \<open>Running a step: \<open>StepRunner.run\<close>\<close>

text \<open>\<open>_load_output_materializers\<close>: every source of every output is loaded, in order.\<close>

fun load_classes :: "collaborators \<Rightarrow> source list \<Rightarrow> exc + materializer list" where
  "load_classes c [] = Inr []"
| "load_classes c (src # rest) =
     (case load_and_validate_class c src of
        Inl e \<Rightarrow> Inl e
      | Inr materializer_class \<Rightarrow> map_sum id ((#) materializer_class) (load_classes c rest))"

fun load_output_materializers_loop ::
    "collaborators \<Rightarrow> (string \<times> output_config) list \<Rightarrow> (string \<times> materializer list) list
     \<Rightarrow> exc + (string \<times> materializer list) list" where
  "load_output_materializers_loop c [] materializers = Inr materializers"
| "load_output_materializers_loop c ((output_name, output) # rest) materializers =
     (case load_classes c (materializer_source output) of
        Inl e \<Rightarrow> Inl e
      | Inr output_materializers \<Rightarrow>
          load_output_materializers_loop c rest
            (AList.update output_name output_materializers materializers))"

definition load_output_materializers ::
    "collaborators \<Rightarrow> step \<Rightarrow> exc + (string \<times> materializer list) list" where
  "load_output_materializers c stp = load_output_materializers_loop c (config_outputs stp) []"

text \<open>
  The \<open>finally\<close> block, lines 214 to 266, in its stages. First the step-run metadata
  is fetched from the stack and published, and the stack cleans up (lines 215 to 224).
\<close>

definition publish_metadata_and_cleanup ::
    "collaborators \<Rightarrow> step_run_info \<Rightarrow> bool \<Rightarrow> runner_state \<Rightarrow> unit outcome" where
  "publish_metadata_and_cleanup c step_run_info step_failed s =
     and_then (get_step_run_metadata c step_run_info, s) (\<lambda>step_run_metadata s.
     and_then
       (effect (publish_step_run_metadata c (sri_step_run_id step_run_info) step_run_metadata)
          (\<lambda>s. s\<lparr>st_published_metadata := st_published_metadata s @ [step_run_metadata]\<rparr>) s)
       (\<lambda>_ s. effect (cleanup_step_run c step_run_info step_failed) (\<lambda>s. s) s))"

text \<open>When the entrypoint has returned, the success hook runs, if one is declared.\<close>

definition run_success_hook :: "collaborators \<Rightarrow> step \<Rightarrow> runner_state \<Rightarrow> unit outcome" where
  "run_success_hook c stp s =
     (case config_success_hook_source stp of
        Some success_hook_source \<Rightarrow>
          load_and_run_hook c stp success_hook_source None
            (log_msg Info ''Detected success hook. Running...'' s)
      | None \<Rightarrow> (Inr (), s))"

text \<open>
  Then the outputs are validated and stored and the two links are made (lines 236 to
  265).
\<close>

definition validate_and_store ::
    "collaborators \<Rightarrow> step \<Rightarrow> pipeline_run \<Rightarrow> step_run \<Rightarrow> (string \<times> string) list
     \<Rightarrow> step_run_info \<Rightarrow> (string \<times> materializer list) list
     \<Rightarrow> (string \<times> output_signature) list \<Rightarrow> pyval \<Rightarrow> runner_state
     \<Rightarrow> (string \<times> uuid) list outcome" where
  "validate_and_store c stp pipeline_run step_run output_artifact_uris step_run_info
       output_materializers output_annotations return_values s =
     and_then (validate_outputs stp return_values output_annotations, s) (\<lambda>output_data s.
       (let artifact_metadata_enabled =
              is_setting_enabled (sri_step_enable_artifact_metadata step_run_info)
                (sri_pipeline_enable_artifact_metadata step_run_info);
            artifact_visualization_enabled =
              is_setting_enabled (sri_step_enable_artifact_visualization step_run_info)
                (sri_pipeline_enable_artifact_visualization step_run_info)
        in
     and_then
       (store_output_artifacts c stp output_data output_materializers output_artifact_uris
          output_annotations artifact_metadata_enabled artifact_visualization_enabled s)
       (\<lambda>output_artifact_ids s.
     and_then
       (effect (link_step_artifacts_to_model c output_artifact_ids)
          (\<lambda>s. s\<lparr>st_artifact_links := st_artifact_links s @ [output_artifact_ids]\<rparr>) s)
       (\<lambda>_ s.
     and_then
       (link_pipeline_run_to_model_from_artifacts c pipeline_run
          (map fst output_artifact_ids)
          (map snd (sr_external_input_artifacts step_run)) s)
       (\<lambda>_ s. (Inr output_artifact_ids, s))))))"

text \<open>
  The whole block. \<open>entry_outcome\<close> is what the entrypoint did: \<open>step_failed\<close> is
  true when it raised. The block returns the ids of the stored outputs (none when the
  step failed). Its last statement clears the step context; when a statement before it
  raises, the rest of the block does not run.
\<close>

definition run_finally ::
    "collaborators \<Rightarrow> step \<Rightarrow> pipeline_run \<Rightarrow> step_run \<Rightarrow> (string \<times> string) list
     \<Rightarrow> step_run_info \<Rightarrow> (string \<times> materializer list) list
     \<Rightarrow> (string \<times> output_signature) list \<Rightarrow> exc + pyval \<Rightarrow> runner_state
     \<Rightarrow> (string \<times> uuid) list outcome" where
  "run_finally c stp pipeline_run step_run output_artifact_uris step_run_info
       output_materializers output_annotations entry_outcome s =
     (let step_failed = isl entry_outcome in
      and_then (publish_metadata_and_cleanup c step_run_info step_failed s) (\<lambda>_ s.
      and_then
        (case entry_outcome of
           Inr return_values \<Rightarrow>
             and_then (run_success_hook c stp s) (\<lambda>_ s.
               validate_and_store c stp pipeline_run step_run output_artifact_uris
                 step_run_info output_materializers output_annotations return_values s)
         | Inl step_exception \<Rightarrow> (Inr [], s))
        (\<lambda>output_artifact_ids s.
           (Inr output_artifact_ids, step_context_clear s))))"

text \<open>
  Lines 145 to 195: loading the step and its materializers, preparing the stack, binding
  a fresh step context, and resolving the entrypoint's arguments. The result is the step
  instance, the output materializers and the arguments.
\<close>

definition new_step_context ::
    "pipeline_run \<Rightarrow> step_run \<Rightarrow> (string \<times> materializer list) list
     \<Rightarrow> (string \<times> string) list \<Rightarrow> bool \<Rightarrow> (string \<times> output_signature) list
     \<Rightarrow> step_context" where
  "new_step_context pipeline_run step_run output_materializers output_artifact_uris
       cache_enabled output_annotations =
     \<lparr>sc_pipeline_run = pipeline_run,
      sc_step_run = step_run,
      sc_output_materializers = output_materializers,
      sc_output_artifact_uris = output_artifact_uris,
      sc_cache_enabled = cache_enabled,
      sc_output_artifact_configs = map (\<lambda>(k, v). (k, os_artifact_config v)) output_annotations,
      sc_output_metadata = [],
      sc_output_tags = []\<rparr>"

definition run_setup ::
    "collaborators \<Rightarrow> step \<Rightarrow> pipeline_run \<Rightarrow> step_run \<Rightarrow> (string \<times> artifact_version) list
     \<Rightarrow> (string \<times> string) list \<Rightarrow> step_run_info \<Rightarrow> runner_state
     \<Rightarrow> (step_instance \<times> (string \<times> materializer list) list \<times> (string \<times> pyval) list) outcome"
  where
  "run_setup c stp pipeline_run step_run input_artifacts output_artifact_uris
       step_run_info s =
     and_then (load_from_source c (spec_source stp), s) (\<lambda>step_instance s.
     and_then (load_output_materializers c stp, s) (\<lambda>output_materializers s.
       (let cache_enabled =
              is_setting_enabled (sri_step_enable_cache step_run_info)
                (sri_pipeline_enable_cache step_run_info);
            output_annotations = entrypoint_outputs step_instance
        in
     and_then (effect (prepare_step_run c step_run_info) (\<lambda>s. s) s) (\<lambda>_ s.
     and_then
       (Inr (),
        (step_context_clear s)
          \<lparr>st_step_context :=
             Some (new_step_context pipeline_run step_run output_materializers
                     output_artifact_uris cache_enabled output_annotations)\<rparr>)
       (\<lambda>_ s.
     and_then (prepare_model_context_for_step c s, s) (\<lambda>_ s.
     and_then
       (parse_inputs c stp (entrypoint_args step_instance)
          (entrypoint_annotations step_instance) input_artifacts s)
       (\<lambda>function_params s.
     and_then (link_pipeline_run_to_model_from_context c pipeline_run s) (\<lambda>_ s.
       (Inr (step_instance, output_materializers, function_params), s)))))))))"

text \<open>
  The \<open>except BaseException\<close> handler, lines 202 to 213: the failure hook, if one is
  declared, and \<open>raise\<close>. The result is the exception in flight when the handler is
  left: the step's own, or the one that escaped from the hook.
\<close>

definition run_failure_handler ::
    "collaborators \<Rightarrow> step \<Rightarrow> exc \<Rightarrow> runner_state \<Rightarrow> exc \<times> runner_state" where
  "run_failure_handler c stp step_exception s =
     (case config_failure_hook_source stp of
        Some failure_hook_source \<Rightarrow>
          (case load_and_run_hook c stp failure_hook_source (Some step_exception)
                  (log_msg Info ''Detected failure hook. Running...'' s) of
             (Inl e, s') \<Rightarrow> (e, s')
           | (Inr u, s') \<Rightarrow> (step_exception, s'))
      | None \<Rightarrow> (step_exception, s))"

text \<open>
  \<open>StepRunner.run\<close>. The logs context is chosen first; entering and leaving it and the
  step environment changes nothing this model follows. After the \<open>finally\<close> block an
  exception in flight goes on to the caller, unless the block itself raised, in which
  case that exception does; when the entrypoint returned and the block went through,
  the successful step run is published.
\<close>

definition run ::
    "collaborators \<Rightarrow> step \<Rightarrow> pipeline_run \<Rightarrow> step_run \<Rightarrow> (string \<times> artifact_version) list
     \<Rightarrow> (string \<times> string) list \<Rightarrow> step_run_info \<Rightarrow> runner_state \<Rightarrow> unit outcome" where
  "run c stp pipeline_run step_run input_artifacts output_artifact_uris step_run_info s =
     (let step_logging =
            step_logging_enabled (disable_step_logs_storage c) step_run pipeline_run;
          (logs_context, s) = select_logs_context step_logging (logs_redirected c) step_run s
      in
      and_then
        (run_setup c stp pipeline_run step_run input_artifacts output_artifact_uris
           step_run_info s)
        (\<lambda>(step_instance, output_materializers, function_params) s.
           (let output_annotations = entrypoint_outputs step_instance in
            case user_call (call_entrypoint step_instance function_params) s of
              (Inr return_values, s) \<Rightarrow>
                and_then
                  (run_finally c stp pipeline_run step_run output_artifact_uris
                     step_run_info output_materializers output_annotations
                     (Inr return_values) s)
                  (\<lambda>output_artifact_ids s.
                     effect
                       (publish_successful_step_run c (sri_step_run_id step_run_info)
                          output_artifact_ids)
                       (\<lambda>s. s\<lparr>st_published_success := Some output_artifact_ids\<rparr>) s)
            | (Inl step_exception, s) \<Rightarrow>
                (case run_failure_handler c stp step_exception s of
                   (in_flight, s) \<Rightarrow>
                     and_then
                       (run_finally c stp pipeline_run step_run output_artifact_uris
                          step_run_info output_materializers output_annotations
                          (Inl step_exception) s)
                       (\<lambda>_ s. (Inl in_flight, s))))))"

section \<open>What the spec calls the name of an artifact\<close>

text \<open>
  The custom name an artifact configuration declares, if it declares one, and the name
  of the pipeline of a run (\<open>unlisted\<close> for a run without a pipeline, as line 610 has
  it). They state the naming rule in the spec's words, to compare
  \<open>output_artifact_name\<close> with.
\<close>

definition declared_custom_name :: "artifact_config option \<Rightarrow> string option" where
  "declared_custom_name artifact_config =
     (case artifact_config of
        Some cfg \<Rightarrow> (case ac_name cfg of Some n \<Rightarrow> if n = [] then None else Some n | None \<Rightarrow> None)
      | None \<Rightarrow> None)"

definition pipeline_name_of :: "pipeline_run \<Rightarrow> string" where
  "pipeline_name_of pipeline_run =
     (case pr_pipeline_name pipeline_run of Some n \<Rightarrow> n | None \<Rightarrow> ''unlisted'')"

definition spec_artifact_name :: "step_context \<Rightarrow> artifact_config option \<Rightarrow> string \<Rightarrow> string" where
  "spec_artifact_name step_context artifact_config output_name =
     (case declared_custom_name artifact_config of
        Some custom_name \<Rightarrow> custom_name
      | None \<Rightarrow>
          pipeline_name_of (sc_pipeline_run step_context) @ ''::''
          @ sr_name (sc_step_run step_context) @ ''::'' @ output_name)"

section \<open>Concrete steps and runs\<close>

text \<open>
  A step \<open>trainer\<close> of a pipeline \<open>training\<close>, with one parameter and two integer
  outputs, in a world where every collaborator does its work. The entrypoint and the
  failure hook do what they are told to: \<open>entry\<close> and \<open>hook_result\<close> are their
  outcomes.
\<close>

definition int_class :: pyclass where
  "int_class = PyClass ''int'' [''object'']"

definition int_materializer :: materializer where
  "int_materializer = \<lparr>mat_name = ''BuiltInMaterializer'', associated_types = [''int'', ''str'']\<rparr>"

definition pickle_materializer :: materializer where
  "pickle_materializer = \<lparr>mat_name = ''CloudpickleMaterializer'', associated_types = [''object'']\<rparr>"

definition demo_pipeline_run :: pipeline_run where
  "demo_pipeline_run =
     \<lparr>pr_id = 1, pr_pipeline_name = Some ''training'', pr_enable_step_logs = None,
      pr_model = None\<rparr>"

definition demo_step_run :: step_run where
  "demo_step_run =
     \<lparr>sr_id = 2, sr_name = ''trainer'', sr_enable_step_logs = Some True, sr_logs_uri = None,
      sr_model = None, sr_external_input_artifacts = []\<rparr>"

definition demo_step_run_info :: step_run_info where
  "demo_step_run_info =
     \<lparr>sri_step_run_id = 2, sri_step_enable_cache = None, sri_pipeline_enable_cache = None,
      sri_step_enable_artifact_metadata = None, sri_pipeline_enable_artifact_metadata = None,
      sri_step_enable_artifact_visualization = None,
      sri_pipeline_enable_artifact_visualization = None\<rparr>"

definition demo_step :: step where
  "demo_step =
     \<lparr>spec_source = ''steps.trainer'', spec_pipeline_parameter_name = ''trainer'',
      config_name = ''trainer'',
      config_parameters = [(''epochs'', PyInt 3)],
      config_outputs =
        [(''output_0'', \<lparr>materializer_source = [''materializers.builtin''],
                         default_materializer_source = None\<rparr>),
         (''output_1'', \<lparr>materializer_source = [''materializers.builtin''],
                         default_materializer_source = None\<rparr>)],
      config_failure_hook_source = Some ''hooks.alert'',
      config_success_hook_source = None\<rparr>"

definition demo_outputs :: "(string \<times> output_signature) list" where
  "demo_outputs =
     [(''output_0'', \<lparr>resolved_annotation = ClassT int_class, os_artifact_config = None\<rparr>),
      (''output_1'', \<lparr>resolved_annotation = ClassT int_class, os_artifact_config = None\<rparr>)]"

definition demo_instance :: "exc + pyval \<Rightarrow> step_instance" where
  "demo_instance entry =
     \<lparr>entrypoint_args = [''epochs''],
      entrypoint_annotations = [(''epochs'', ClassT int_class)],
      entrypoint_outputs = demo_outputs,
      call_entrypoint = (\<lambda>function_params ctx. (entry, ctx))\<rparr>"

definition demo_hook :: "exc + unit \<Rightarrow> hook" where
  "demo_hook hook_result =
     \<lparr>hook_args = [''exception''],
      hook_annotations = [(''exception'', ClassT (PyClass ''BaseException'' [''object'']))],
      hook_call = (\<lambda>function_params ctx. (hook_result, ctx))\<rparr>"

definition demo_collaborators :: "exc + pyval \<Rightarrow> exc + unit \<Rightarrow> collaborators" where
  "demo_collaborators entry hook_result =
     \<lparr>disable_step_logs_storage = False,
      logs_redirected = True,
      load_from_source = (\<lambda>src. Inr (demo_instance entry)),
      load_and_validate_class = (\<lambda>src. Inr int_materializer),
      source_load_class = (\<lambda>src. Inr int_class),
      source_load_hook = (\<lambda>src. Inr (demo_hook hook_result)),
      prepare_step_run = (\<lambda>info. None),
      get_step_run_metadata = (\<lambda>info. Inr []),
      publish_step_run_metadata = (\<lambda>step_run_id metadata. None),
      cleanup_step_run = (\<lambda>info step_failed. None),
      materializer_load = (\<lambda>m uri cl. Inr (PyInt 7)),
      parse_obj = (\<lambda>cl v. Inr (PyObject cl [v])),
      get_or_create_model_version = (\<lambda>m. Inr (length (model_name m), 1)),
      save_artifact = (\<lambda>request. Inr (length (sv_name request))),
      link_step_artifacts_to_model = (\<lambda>ids. None),
      create_model_version_pipeline_run_link = (\<lambda>request. None),
      publish_successful_step_run = (\<lambda>step_run_id ids. None)\<rparr>"

definition demo_uris :: "(string \<times> string) list" where
  "demo_uris = [(''output_0'', ''s3://store/0''), (''output_1'', ''s3://store/1'')]"

definition demo_state :: runner_state where
  "demo_state =
     \<lparr>st_step_context = None,
      st_registry = \<lparr>materializer_types = [(''int'', int_materializer)],
                     default_materializer = pickle_materializer\<rparr>,
      st_saved_artifacts = [],
      st_artifact_links = [],
      st_run_links = [],
      st_published_metadata = [],
      st_published_success = None,
      st_log = []\<rparr>"

text \<open>
  The step context that \<open>run\<close> binds for this step, and one whose second output is
  bound to a model while the first has a configuration without one.
\<close>

definition demo_context :: step_context where
  "demo_context =
     new_step_context demo_pipeline_run demo_step_run
       [(''output_0'', [int_materializer]), (''output_1'', [int_materializer])]
       demo_uris True demo_outputs"

definition model_bound_outputs :: "(string \<times> output_signature) list" where
  "model_bound_outputs =
     [(''plain'', \<lparr>resolved_annotation = ClassT int_class,
                   os_artifact_config =
                     Some \<lparr>ac_name = Some ''plain'', ac_version = None, ac_model = None\<rparr>\<rparr>),
      (''bound'', \<lparr>resolved_annotation = ClassT int_class,
                   os_artifact_config =
                     Some \<lparr>ac_name = Some ''bound'', ac_version = None,
                           ac_model = Some \<lparr>model_name = ''churn'',
                                            model_version = None\<rparr>\<rparr>\<rparr>)]"

definition model_bound_context :: step_context where
  "model_bound_context =
     new_step_context demo_pipeline_run demo_step_run
       [(''plain'', [int_materializer]), (''bound'', [int_materializer])]
       [(''plain'', ''s3://store/0''), (''bound'', ''s3://store/1'')] True
       model_bound_outputs"

text \<open>
  The same world with a stack that cannot give the step-run metadata, and with one that
  fails to clean up.
\<close>

definition stack_without_metadata :: "collaborators \<Rightarrow> collaborators" where
  "stack_without_metadata c =
     c\<lparr>get_step_run_metadata := (\<lambda>info. Inl (Exc RuntimeError ''No step run metadata.''))\<rparr>"

definition stack_without_cleanup :: "collaborators \<Rightarrow> collaborators" where
  "stack_without_cleanup c =
     c\<lparr>cleanup_step_run := (\<lambda>info step_failed. Some (Exc RuntimeError ''Cleanup failed.''))\<rparr>"

text \<open>
  Output annotations with a custom artifact name: an output keyed \<open>output_0\<close> whose
  artifact configuration is named \<open>features\<close>; and an output keyed by its custom name
  \<open>features\<close> next to one without configuration; and the step contexts for them.
\<close>

definition features_config :: artifact_config where
  "features_config = \<lparr>ac_name = Some ''features'', ac_version = None, ac_model = None\<rparr>"

definition renamed_outputs :: "(string \<times> output_signature) list" where
  "renamed_outputs =
     [(''output_0'', \<lparr>resolved_annotation = ClassT int_class,
                      os_artifact_config = Some features_config\<rparr>)]"

definition mixed_outputs :: "(string \<times> output_signature) list" where
  "mixed_outputs =
     [(''features'', \<lparr>resolved_annotation = ClassT int_class,
                      os_artifact_config = Some features_config\<rparr>),
      (''output_1'', \<lparr>resolved_annotation = ClassT int_class, os_artifact_config = None\<rparr>)]"

definition renamed_context :: step_context where
  "renamed_context =
     new_step_context demo_pipeline_run demo_step_run [(''output_0'', [int_materializer])]
       [(''output_0'', ''s3://store/0'')] True renamed_outputs"

definition mixed_context :: step_context where
  "mixed_context =
     new_step_context demo_pipeline_run demo_step_run
       [(''features'', [int_materializer]), (''output_1'', [int_materializer])]
       [(''features'', ''s3://store/0''), (''output_1'', ''s3://store/1'')] True mixed_outputs"

text \<open>The step run with a logs record.\<close>

definition logged_step_run :: step_run where
  "logged_step_run = demo_step_run\<lparr>sr_logs_uri := Some ''s3://store/logs/2''\<rparr>"

section \<open>Properties of the user model\<close>

text \<open>
  C10. When the user argument is \<open>None\<close>, or the user has no stored password, or the
  user is inactive, \<open>verify_password\<close> makes exactly one call into the password
  context, the verification of the given password against an absent hash, and returns
  what that call returns, whatever the user was. With a password context that rejects an
  absent hash (as \<open>passlib\<close>'s does), the result is never \<open>True\<close>.
\<close>

theorem verify_password_absent_hash:
  assumes "user = None \<or> (\<exists>u. user = Some u \<and> (password u = None \<or> \<not> active u))"
  shows "verify_password ctx p user = (verify ctx p None, [VerifyCall p None])
         \<and> (\<not> verify ctx p None \<longrightarrow> \<not> fst (verify_password ctx p user))"
  using assms by (auto simp: verify_password_def split: option.splits)

theorem verify_password_absent_hash_witness:
  "verify_password \<lparr>verify = (\<lambda>p h. h = Some (rev p)), hash = rev\<rparr> ''secret''
     (Some \<lparr>name = ''ann'', full_name = ''Ann'', email = ''a@b.c'', active = False,
            password = Some ''terces'', activation_token = None\<rparr>)
   = (False, [VerifyCall ''secret'' None])"
  using verify_password_absent_hash
    [of "Some \<lparr>name = ''ann'', full_name = ''Ann'', email = ''a@b.c'', active = False,
               password = Some ''terces'', activation_token = None\<rparr>"
        "\<lparr>verify = (\<lambda>p h. h = Some (rev p)), hash = rev\<rparr>" "''secret''"]
  by simp

section \<open>Sequencing and what the stages of a run leave alone\<close>

lemma and_then_Inl [simp]: "and_then (Inl e, s) f = (Inl e, s)"
  by (simp add: and_then_def)

lemma and_then_Inr [simp]: "and_then (Inr x, s) f = f x s"
  by (simp add: and_then_def)

lemma and_then_cases:
  "and_then r f = (x, s') \<Longrightarrow>
     (\<And>e. r = (Inl e, s') \<Longrightarrow> x = Inl e \<Longrightarrow> P) \<Longrightarrow>
     (\<And>y s1. r = (Inr y, s1) \<Longrightarrow> f y s1 = (x, s') \<Longrightarrow> P) \<Longrightarrow> P"
  by (cases r; cases "fst r"; auto simp: and_then_def)

lemma and_then_keeps:
  assumes "P (snd r)" and "\<And>x s. P s \<Longrightarrow> P (snd (f x s))"
  shows "P (snd (and_then r f))"
  using assms by (cases r; cases "fst r"; auto simp: and_then_def)

lemma and_then_fails:
  assumes "\<And>x s. isl (fst (f x s))"
  shows "isl (fst (and_then r f))"
  using assms by (cases r; cases "fst r"; auto simp: and_then_def)

text \<open>No stage of a run before the storage of the outputs saves an artifact.\<close>

lemma effect_saved:
  "(\<And>t. st_saved_artifacts (f t) = st_saved_artifacts t) \<Longrightarrow>
   st_saved_artifacts (snd (effect r f s)) = st_saved_artifacts s"
  by (simp add: effect_def split: option.splits)

lemma user_call_saved:
  "st_saved_artifacts (snd (user_call f s)) = st_saved_artifacts s"
  by (simp add: user_call_def split: prod.splits)

lemma log_msg_saved [simp]: "st_saved_artifacts (log_msg l m s) = st_saved_artifacts s"
  by (simp add: log_msg_def)

lemma parse_input_saved:
  "st_saved_artifacts (snd (parse_input c stp anns ia arg s)) = st_saved_artifacts s"
  by (simp add: parse_input_def Let_def split: option.splits)

lemma parse_inputs_loop_saved:
  "st_saved_artifacts (snd (parse_inputs_loop c stp anns ia args fp s)) = st_saved_artifacts s"
proof (induction args arbitrary: fp s)
  case Nil
  show ?case by simp
next
  case (Cons arg rest)
  show ?case
    unfolding parse_inputs_loop.simps
    by (rule and_then_keeps [where P = "\<lambda>t. st_saved_artifacts t = st_saved_artifacts s"])
       (simp_all add: parse_input_saved Cons.IH)
qed

lemma parse_hook_input_saved:
  "st_saved_artifacts (snd (parse_hook_input c stp anns ex arg s)) = st_saved_artifacts s"
  by (simp add: parse_hook_input_def Let_def split: option.splits pytype.splits sum.splits)

lemma parse_hook_inputs_loop_saved:
  "st_saved_artifacts (snd (parse_hook_inputs_loop c stp anns ex args fp s)) = st_saved_artifacts s"
proof (induction args arbitrary: fp s)
  case Nil
  show ?case by simp
next
  case (Cons arg rest)
  show ?case
    unfolding parse_hook_inputs_loop.simps
    by (rule and_then_keeps [where P = "\<lambda>t. st_saved_artifacts t = st_saved_artifacts s"])
       (simp_all add: parse_hook_input_saved Cons.IH)
qed

lemma hook_try_body_saved:
  "st_saved_artifacts (snd (hook_try_body c stp src ex s)) = st_saved_artifacts s"
  unfolding hook_try_body_def
  by (intro and_then_keeps [where P = "\<lambda>t. st_saved_artifacts t = st_saved_artifacts s"])
     (simp_all add: parse_hook_inputs_def parse_hook_inputs_loop_saved user_call_saved)

lemma load_and_run_hook_saved:
  "st_saved_artifacts (snd (load_and_run_hook c stp src ex s)) = st_saved_artifacts s"
  using hook_try_body_saved [of c stp src ex s]
  by (auto simp: load_and_run_hook_def split: prod.splits sum.splits)

lemma create_run_links_saved:
  "st_saved_artifacts (snd (create_run_links c pr ms s)) = st_saved_artifacts s"
proof (induction ms arbitrary: s)
  case Nil
  show ?case by simp
next
  case (Cons m rest)
  show ?case
    unfolding create_run_links.simps Let_def
    by (rule and_then_keeps [where P = "\<lambda>t. st_saved_artifacts t = st_saved_artifacts s"])
       (simp_all add: effect_saved Cons.IH)
qed

lemma run_setup_saved:
  "st_saved_artifacts (snd (run_setup c stp pr sr ia uris sri s)) = st_saved_artifacts s"
  unfolding run_setup_def Let_def
  by (intro and_then_keeps [where P = "\<lambda>t. st_saved_artifacts t = st_saved_artifacts s"])
     (simp_all add: effect_saved step_context_clear_def parse_inputs_def parse_inputs_loop_saved
        link_pipeline_run_to_model_from_context_def create_run_links_saved
        and_then_keeps [where P = "\<lambda>t. st_saved_artifacts t = st_saved_artifacts s"])

lemma publish_metadata_and_cleanup_saved:
  "st_saved_artifacts (snd (publish_metadata_and_cleanup c sri b s)) = st_saved_artifacts s"
  unfolding publish_metadata_and_cleanup_def
  by (intro and_then_keeps [where P = "\<lambda>t. st_saved_artifacts t = st_saved_artifacts s"])
     (simp_all add: effect_saved)

lemma run_success_hook_saved:
  "st_saved_artifacts (snd (run_success_hook c stp s)) = st_saved_artifacts s"
  by (simp add: run_success_hook_def load_and_run_hook_saved split: option.splits)

lemma select_logs_context_saved:
  "st_saved_artifacts (snd (select_logs_context e r sr s)) = st_saved_artifacts s"
  by (simp add: select_logs_context_def split: option.splits)


section \<open>Output validation comes before storage\<close>

lemma and_then_isl: "isl (fst r) \<Longrightarrow> isl (fst (and_then r f))"
  by (cases r; cases "fst r"; auto simp: and_then_def)

lemma validate_loop_error:
  "validate_loop n zs acc = Inl e \<Longrightarrow> exc_cls e = StepInterfaceError"
  by (induction n zs acc rule: validate_loop.induct) (auto split: if_splits)

lemma validate_outputs_error:
  "validate_outputs stp rv anns = Inl e \<Longrightarrow> exc_cls e = StepInterfaceError"
  by (auto simp: validate_outputs_def Let_def dest: validate_loop_error split: if_splits option.splits)

lemma validate_loop_mismatch:
  "i < length zs \<Longrightarrow> \<not> output_type_ok (fst (zs ! i)) (resolved_annotation (snd (snd (zs ! i))))
   \<Longrightarrow> isl (validate_loop n zs acc)"
proof (induction n zs acc arbitrary: i rule: validate_loop.induct)
  case (1 step_name validated_outputs)
  then show ?case by simp
next
  case (2 step_name return_value output_name output_annotation rest validated_outputs)
  show ?case
  proof (cases i)
    case 0
    with 2 show ?thesis by simp
  next
    case (Suc j)
    with 2 show ?thesis by auto
  qed
qed

lemma validate_outputs_arity:
  assumes "1 < length anns"
      and "\<not> (is_list_or_tuple rv \<and> length (items_of rv) = length anns)"
  shows "\<exists>m. validate_outputs stp rv anns = Inl (Exc StepInterfaceError m)"
  using assms by (auto simp: validate_outputs_def Let_def)

lemma validate_outputs_type:
  assumes "i < length anns"
      and "is_list_or_tuple (if length anns = 1 then PyList [rv] else rv)
           \<and> length (items_of (if length anns = 1 then PyList [rv] else rv)) = length anns
           \<longrightarrow> \<not> output_type_ok (items_of (if length anns = 1 then PyList [rv] else rv) ! i)
                    (resolved_annotation (snd (anns ! i)))"
  shows "\<exists>m. validate_outputs stp rv anns = Inl (Exc StepInterfaceError m)"
proof -
  let ?rv = "if length anns = 1 then PyList [rv] else rv"
  have "isl (validate_outputs stp rv anns)"
  proof (cases "is_list_or_tuple ?rv \<and> length (items_of ?rv) = length anns")
    case False
    with assms(1) show ?thesis by (auto simp: validate_outputs_def Let_def)
  next
    case True
    with assms(2)
    have "\<not> output_type_ok (items_of ?rv ! i) (resolved_annotation (snd (anns ! i)))"
      by blast
    with True assms(1)
    have "isl (validate_loop (spec_pipeline_parameter_name stp) (zip (items_of ?rv) anns) [])"
      by (intro validate_loop_mismatch [where i = i]) simp_all
    with True assms(1) show ?thesis by (auto simp: validate_outputs_def Let_def)
  qed
  then obtain e where e: "validate_outputs stp rv anns = Inl e"
    by (cases "validate_outputs stp rv anns") auto
  then have "exc_cls e = StepInterfaceError" by (rule validate_outputs_error)
  with e show ?thesis by (cases e) auto
qed

lemma run_finally_invalid:
  assumes "validate_outputs stp rv anns = Inl e"
  shows "isl (fst (run_finally c stp pr sr uris sri mats anns (Inr rv) s))"
    and "st_saved_artifacts (snd (run_finally c stp pr sr uris sri mats anns (Inr rv) s))
           = st_saved_artifacts s"
proof -
  have vas: "validate_and_store c stp pr sr uris sri mats anns rv t = (Inl e, t)" for t
    using assms by (simp add: validate_and_store_def)
  have inner: "isl (fst (and_then
                           (and_then (run_success_hook c stp t)
                              (\<lambda>_ t. validate_and_store c stp pr sr uris sri mats anns rv t)) K))"
    for t and K :: "(string \<times> uuid) list \<Rightarrow> runner_state \<Rightarrow> (string \<times> uuid) list outcome"
    by (rule and_then_isl, rule and_then_fails) (simp add: vas)
  show "isl (fst (run_finally c stp pr sr uris sri mats anns (Inr rv) s))"
    unfolding run_finally_def Let_def
    by (rule and_then_fails) (simp add: inner)
  have inner_saved:
    "st_saved_artifacts
       (snd (and_then (run_success_hook c stp t)
               (\<lambda>_ t. validate_and_store c stp pr sr uris sri mats anns rv t)))
     = st_saved_artifacts t" for t
    by (rule and_then_keeps [where P = "\<lambda>u. st_saved_artifacts u = st_saved_artifacts t"])
       (simp_all add: vas run_success_hook_saved)
  show "st_saved_artifacts (snd (run_finally c stp pr sr uris sri mats anns (Inr rv) s))
          = st_saved_artifacts s"
    unfolding run_finally_def Let_def
    by (intro and_then_keeps [where P = "\<lambda>t. st_saved_artifacts t = st_saved_artifacts s"])
       (simp_all add: inner_saved publish_metadata_and_cleanup_saved step_context_clear_def)
qed

lemma run_invalid_outputs:
  assumes logs: "select_logs_context
                   (step_logging_enabled (disable_step_logs_storage c) sr pr)
                   (logs_redirected c) sr s = (lc, s0)"
      and stp_ok: "run_setup c stp pr sr ia uris sri s0 = (Inr (si, mats, params), s1)"
      and entry: "user_call (call_entrypoint si params) s1 = (Inr rv, s2)"
      and invalid: "validate_outputs stp rv (entrypoint_outputs si) = Inl e"
  shows "isl (fst (run c stp pr sr ia uris sri s))"
    and "st_saved_artifacts (snd (run c stp pr sr ia uris sri s)) = st_saved_artifacts s"
    and "publish_metadata_and_cleanup c sri False s2 = (Inr (), s3) \<Longrightarrow>
         run_success_hook c stp s3 = (Inr (), s4) \<Longrightarrow>
         run c stp pr sr ia uris sri s = (Inl e, s4)"
proof -
  let ?fin = "run_finally c stp pr sr uris sri mats (entrypoint_outputs si) (Inr rv) s2"
  have run_eq: "run c stp pr sr ia uris sri s =
      and_then ?fin
        (\<lambda>ids t. effect (publish_successful_step_run c (sri_step_run_id sri) ids)
                    (\<lambda>t. t\<lparr>st_published_success := Some ids\<rparr>) t)"
    using logs stp_ok entry by (simp add: run_def Let_def)
  have "st_saved_artifacts s2 = st_saved_artifacts s"
    using select_logs_context_saved [of "step_logging_enabled (disable_step_logs_storage c) sr pr"
             "logs_redirected c" sr s]
          run_setup_saved [of c stp pr sr ia uris sri s0]
          user_call_saved [of "call_entrypoint si params" s1] logs stp_ok entry
    by simp
  moreover obtain x t where fin: "?fin = (Inl x, t)"
    using run_finally_invalid(1) [OF invalid, of c pr sr uris sri mats s2]
    by (cases ?fin; cases "fst ?fin") auto
  moreover have "st_saved_artifacts (snd ?fin) = st_saved_artifacts s2"
    by (rule run_finally_invalid(2) [OF invalid])
  ultimately show "isl (fst (run c stp pr sr ia uris sri s))"
    and "st_saved_artifacts (snd (run c stp pr sr ia uris sri s)) = st_saved_artifacts s"
    by (simp_all add: run_eq)
  show "run c stp pr sr ia uris sri s = (Inl e, s4)"
    if "publish_metadata_and_cleanup c sri False s2 = (Inr (), s3)"
       "run_success_hook c stp s3 = (Inr (), s4)"
    using that invalid by (simp add: run_eq run_finally_def validate_and_store_def)
qed

text \<open>The concrete step, evaluated stage by stage.\<close>

lemmas demo_defs = demo_collaborators_def demo_instance_def demo_hook_def demo_state_def
  demo_step_def demo_step_run_def demo_pipeline_run_def demo_step_run_info_def demo_outputs_def
  demo_uris_def int_class_def int_materializer_def pickle_materializer_def
  demo_context_def model_bound_context_def model_bound_outputs_def new_step_context_def

lemma demo_logs:
  "select_logs_context
     (step_logging_enabled (disable_step_logs_storage (demo_collaborators entry hr)) demo_step_run
        demo_pipeline_run)
     (logs_redirected (demo_collaborators entry hr)) demo_step_run demo_state
   = (NullContext, demo_state)"
  by (simp add: select_logs_context_def demo_collaborators_def)

lemma demo_setup:
  "run_setup (demo_collaborators entry hr) demo_step demo_pipeline_run demo_step_run []
     demo_uris demo_step_run_info demo_state
   = (Inr (demo_instance entry,
           [(''output_0'', [int_materializer]), (''output_1'', [int_materializer])],
           [(''epochs'', PyInt 3)]),
      demo_state\<lparr>st_step_context := Some demo_context\<rparr>)"
  by (simp add: run_setup_def demo_defs load_output_materializers_def effect_def
        step_context_clear_def is_setting_enabled_def prepare_model_context_for_step_def
        get_step_context_def context_model_def parse_inputs_def drop_self_def parse_input_def
        annotation_of_def is_step_context_class_def issubclass_def
        cls_mro_def link_pipeline_run_to_model_from_context_def
        get_model_versions_from_config_def)

lemma demo_entry:
  "user_call (call_entrypoint (demo_instance entry) ps) (demo_state\<lparr>st_step_context := Some demo_context\<rparr>)
   = (entry, demo_state\<lparr>st_step_context := Some demo_context\<rparr>)"
  by (simp add: user_call_def demo_instance_def demo_state_def)

lemma demo_publish:
  "publish_metadata_and_cleanup (demo_collaborators entry hr) demo_step_run_info b s
   = (Inr (), s\<lparr>st_published_metadata := st_published_metadata s @ [[]]\<rparr>)"
  by (simp add: publish_metadata_and_cleanup_def demo_collaborators_def effect_def)

lemma demo_success_hook:
  "run_success_hook (demo_collaborators entry hr) demo_step s = (Inr (), s)"
  by (simp add: run_success_hook_def demo_step_def)

text \<open>The same up to the entrypoint when the stack's metadata or cleanup call fails.\<close>

lemma no_metadata_logs:
  "select_logs_context
     (step_logging_enabled
        (disable_step_logs_storage (stack_without_metadata (demo_collaborators entry hr)))
        demo_step_run demo_pipeline_run)
     (logs_redirected (stack_without_metadata (demo_collaborators entry hr))) demo_step_run
     demo_state
   = (NullContext, demo_state)"
  by (simp add: select_logs_context_def demo_collaborators_def stack_without_metadata_def)

lemma no_metadata_setup:
  "run_setup (stack_without_metadata (demo_collaborators entry hr)) demo_step demo_pipeline_run
     demo_step_run [] demo_uris demo_step_run_info demo_state
   = (Inr (demo_instance entry,
           [(''output_0'', [int_materializer]), (''output_1'', [int_materializer])],
           [(''epochs'', PyInt 3)]),
      demo_state\<lparr>st_step_context := Some demo_context\<rparr>)"
  by (simp add: run_setup_def demo_defs load_output_materializers_def effect_def
        step_context_clear_def is_setting_enabled_def prepare_model_context_for_step_def
        get_step_context_def context_model_def parse_inputs_def drop_self_def parse_input_def
        annotation_of_def is_step_context_class_def issubclass_def
        cls_mro_def link_pipeline_run_to_model_from_context_def
        get_model_versions_from_config_def stack_without_metadata_def)

lemma no_cleanup_logs:
  "select_logs_context
     (step_logging_enabled
        (disable_step_logs_storage (stack_without_cleanup (demo_collaborators entry hr)))
        demo_step_run demo_pipeline_run)
     (logs_redirected (stack_without_cleanup (demo_collaborators entry hr))) demo_step_run
     demo_state
   = (NullContext, demo_state)"
  by (simp add: select_logs_context_def demo_collaborators_def stack_without_cleanup_def)

lemma no_cleanup_setup:
  "run_setup (stack_without_cleanup (demo_collaborators entry hr)) demo_step demo_pipeline_run
     demo_step_run [] demo_uris demo_step_run_info demo_state
   = (Inr (demo_instance entry,
           [(''output_0'', [int_materializer]), (''output_1'', [int_materializer])],
           [(''epochs'', PyInt 3)]),
      demo_state\<lparr>st_step_context := Some demo_context\<rparr>)"
  by (simp add: run_setup_def demo_defs load_output_materializers_def effect_def
        step_context_clear_def is_setting_enabled_def prepare_model_context_for_step_def
        get_step_context_def context_model_def parse_inputs_def drop_self_def parse_input_def
        annotation_of_def is_step_context_class_def issubclass_def
        cls_mro_def link_pipeline_run_to_model_from_context_def
        get_model_versions_from_config_def stack_without_cleanup_def)

lemma no_metadata_publish:
  "publish_metadata_and_cleanup (stack_without_metadata (demo_collaborators entry hr))
     demo_step_run_info b s
   = (Inl (Exc RuntimeError ''No step run metadata.''), s)"
  by (simp add: publish_metadata_and_cleanup_def demo_collaborators_def effect_def
        stack_without_metadata_def)

lemma no_cleanup_publish:
  "publish_metadata_and_cleanup (stack_without_cleanup (demo_collaborators entry hr))
     demo_step_run_info b s
   = (Inl (Exc RuntimeError ''Cleanup failed.''),
      s\<lparr>st_published_metadata := st_published_metadata s @ [[]]\<rparr>)"
  by (simp add: publish_metadata_and_cleanup_def demo_collaborators_def effect_def
        stack_without_cleanup_def)

text \<open>
  C1, at the input that refutes it: the step declares two outputs, its entrypoint returns
  the integer 5, and the stack raises when it is asked for the step-run metadata, the
  first statement of the \<open>finally\<close> block. The run raises the stack's exception; the
  validation, which would raise \<open>StepInterfaceError\<close>, is not reached.
\<close>

theorem metadata_failure_precedes_arity_check:
  "run (stack_without_metadata (demo_collaborators (Inr (PyInt 5)) (Inr ()))) demo_step
     demo_pipeline_run demo_step_run [] demo_uris demo_step_run_info demo_state
   = (Inl (Exc RuntimeError ''No step run metadata.''),
      demo_state\<lparr>st_step_context := Some demo_context\<rparr>)
   \<and> exc_cls (Exc RuntimeError ''No step run metadata.'') \<noteq> StepInterfaceError
   \<and> length (entrypoint_outputs (demo_instance (Inr (PyInt 5)))) = 2
   \<and> \<not> is_list_or_tuple (PyInt 5)"
proof -
  have "length (entrypoint_outputs (demo_instance (Inr (PyInt 5)))) = 2"
      "\<not> is_list_or_tuple (PyInt 5)"
    by (simp_all add: demo_instance_def demo_outputs_def is_list_or_tuple_def isinstance_def
          issubclass_def cls_mro_def)
  then show ?thesis
    by (simp add: run_def no_metadata_logs no_metadata_setup demo_entry run_finally_def
          no_metadata_publish)
qed

text \<open>
  C1, amended. Take a run that gets as far as the entrypoint, whose step declares more
  than one output and whose entrypoint returns a value that is not a list or tuple (or an
  instance of a subclass of one) of exactly that many items. Then
  \<open>_validate_outputs\<close> raises \<open>StepInterfaceError\<close> on it, the run fails, and the
  artifacts saved after the run are those saved before it: nothing is stored. When the
  statements of the \<open>finally\<close> block before the validation go through (the stack's
  metadata, its publication, the cleanup, the success hook), the exception the run raises
  is that \<open>StepInterfaceError\<close>.
\<close>

theorem run_rejects_wrong_output_arity:
  assumes "select_logs_context
             (step_logging_enabled (disable_step_logs_storage c) sr pr)
             (logs_redirected c) sr s = (lc, s0)"
      and "run_setup c stp pr sr ia uris sri s0 = (Inr (si, mats, params), s1)"
      and "user_call (call_entrypoint si params) s1 = (Inr rv, s2)"
      and "1 < length (entrypoint_outputs si)"
      and "\<not> (is_list_or_tuple rv \<and> length (items_of rv) = length (entrypoint_outputs si))"
  shows "(\<exists>m. validate_outputs stp rv (entrypoint_outputs si) = Inl (Exc StepInterfaceError m))
         \<and> isl (fst (run c stp pr sr ia uris sri s))
         \<and> st_saved_artifacts (snd (run c stp pr sr ia uris sri s)) = st_saved_artifacts s
         \<and> (\<forall>s3 s4. publish_metadata_and_cleanup c sri False s2 = (Inr (), s3)
                     \<and> run_success_hook c stp s3 = (Inr (), s4)
               \<longrightarrow> (\<exists>m. run c stp pr sr ia uris sri s = (Inl (Exc StepInterfaceError m), s4)))"
proof -
  obtain m where m: "validate_outputs stp rv (entrypoint_outputs si) = Inl (Exc StepInterfaceError m)"
    using validate_outputs_arity [OF assms(4,5)] by blast
  show ?thesis
    using m run_invalid_outputs [OF assms(1,2,3) m] by blast
qed

theorem run_rejects_wrong_output_arity_witness:
  "(\<exists>m. run (demo_collaborators (Inr (PyObject (PyClass ''Point'' [''tuple'', ''object''])
                                         [PyInt 1, PyInt 2, PyInt 3])) (Inr ()))
           demo_step demo_pipeline_run demo_step_run [] demo_uris demo_step_run_info demo_state
         = (Inl (Exc StepInterfaceError m),
            demo_state\<lparr>st_step_context := Some demo_context, st_published_metadata := [[]]\<rparr>))
   \<and> st_saved_artifacts
        (snd (run (demo_collaborators (Inr (PyObject (PyClass ''Point'' [''tuple'', ''object''])
                                              [PyInt 1, PyInt 2, PyInt 3])) (Inr ()))
                demo_step demo_pipeline_run demo_step_run [] demo_uris demo_step_run_info
                demo_state)) = []"
  using run_rejects_wrong_output_arity
          [OF demo_logs [of "Inr (PyObject (PyClass ''Point'' [''tuple'', ''object''])
                                    [PyInt 1, PyInt 2, PyInt 3])" "Inr ()"]
              demo_setup [of "Inr (PyObject (PyClass ''Point'' [''tuple'', ''object''])
                                     [PyInt 1, PyInt 2, PyInt 3])" "Inr ()"]
              demo_entry [of "Inr (PyObject (PyClass ''Point'' [''tuple'', ''object''])
                                     [PyInt 1, PyInt 2, PyInt 3])"]]
  by (simp add: demo_instance_def demo_outputs_def demo_state_def demo_publish
        demo_success_hook)

text \<open>
  C5, at the input that refutes it: the step declares two integer outputs, its entrypoint
  returns an integer and a string, and the stack raises when it cleans up, before the
  validation. The run raises the stack's exception, not \<open>StepInterfaceError\<close>.
\<close>

theorem cleanup_failure_precedes_type_check:
  "run (stack_without_cleanup
          (demo_collaborators (Inr (PyTuple [PyInt 1, PyStr ''high''])) (Inr ())))
     demo_step demo_pipeline_run demo_step_run [] demo_uris demo_step_run_info demo_state
   = (Inl (Exc RuntimeError ''Cleanup failed.''),
      demo_state\<lparr>st_step_context := Some demo_context, st_published_metadata := [[]]\<rparr>)
   \<and> exc_cls (Exc RuntimeError ''Cleanup failed.'') \<noteq> StepInterfaceError
   \<and> resolved_annotation
        (snd (entrypoint_outputs (demo_instance (Inr (PyTuple [PyInt 1, PyStr ''high'']))) ! 1))
     = ClassT int_class
   \<and> \<not> output_type_ok (PyStr ''high'') (ClassT int_class)"
proof -
  have "st_published_metadata demo_state = []"
      "resolved_annotation
         (snd (entrypoint_outputs (demo_instance (Inr (PyTuple [PyInt 1, PyStr ''high'']))) ! 1))
       = ClassT int_class"
      "\<not> output_type_ok (PyStr ''high'') (ClassT int_class)"
    by (simp_all add: demo_state_def demo_instance_def demo_outputs_def int_class_def
          isinstance_def issubclass_def cls_mro_def)
  then show ?thesis
    by (simp add: run_def no_cleanup_logs no_cleanup_setup demo_entry run_finally_def
          no_cleanup_publish)
qed

text \<open>
  C5, amended. Take a run that gets as far as the entrypoint, and a declared output
  whose resolved annotation is not \<open>Any\<close> and whose returned value (the whole return
  value for a single output, the item at the output's position otherwise) is not an
  instance of it. Then \<open>_validate_outputs\<close> raises \<open>StepInterfaceError\<close>, the run
  fails, and the artifacts saved after the run are those saved before it: nothing is
  written to the store. When the statements of the \<open>finally\<close> block before the
  validation go through (the stack's metadata, its publication, the cleanup, the success
  hook), the exception the run raises is that \<open>StepInterfaceError\<close>.
\<close>

theorem run_rejects_wrong_output_type:
  assumes "select_logs_context
             (step_logging_enabled (disable_step_logs_storage c) sr pr)
             (logs_redirected c) sr s = (lc, s0)"
      and "run_setup c stp pr sr ia uris sri s0 = (Inr (si, mats, params), s1)"
      and "user_call (call_entrypoint si params) s1 = (Inr rv, s2)"
      and "i < length (entrypoint_outputs si)"
      and "resolved_annotation (snd (entrypoint_outputs si ! i)) \<noteq> AnyT"
      and "is_list_or_tuple (if length (entrypoint_outputs si) = 1 then PyList [rv] else rv)
           \<and> length (items_of (if length (entrypoint_outputs si) = 1 then PyList [rv] else rv))
               = length (entrypoint_outputs si)
           \<longrightarrow> \<not> output_type_ok
                    (items_of (if length (entrypoint_outputs si) = 1 then PyList [rv] else rv) ! i)
                    (resolved_annotation (snd (entrypoint_outputs si ! i)))"
  shows "(\<exists>m. validate_outputs stp rv (entrypoint_outputs si) = Inl (Exc StepInterfaceError m))
         \<and> isl (fst (run c stp pr sr ia uris sri s))
         \<and> st_saved_artifacts (snd (run c stp pr sr ia uris sri s)) = st_saved_artifacts s
         \<and> (\<forall>s3 s4. publish_metadata_and_cleanup c sri False s2 = (Inr (), s3)
                     \<and> run_success_hook c stp s3 = (Inr (), s4)
               \<longrightarrow> (\<exists>m. run c stp pr sr ia uris sri s = (Inl (Exc StepInterfaceError m), s4)))"
proof -
  obtain m where m: "validate_outputs stp rv (entrypoint_outputs si) = Inl (Exc StepInterfaceError m)"
    using validate_outputs_type [OF assms(4,6)] by blast
  show ?thesis
    using m run_invalid_outputs [OF assms(1,2,3) m] by blast
qed

theorem run_rejects_wrong_output_type_witness:
  "(\<exists>m. run (demo_collaborators (Inr (PyTuple [PyInt 1, PyStr ''high''])) (Inr ())) demo_step
           demo_pipeline_run demo_step_run [] demo_uris demo_step_run_info demo_state
         = (Inl (Exc StepInterfaceError m),
            demo_state\<lparr>st_step_context := Some demo_context, st_published_metadata := [[]]\<rparr>))
   \<and> st_saved_artifacts
        (snd (run (demo_collaborators (Inr (PyTuple [PyInt 1, PyStr ''high''])) (Inr ()))
                demo_step demo_pipeline_run demo_step_run [] demo_uris demo_step_run_info
                demo_state)) = []"
  using run_rejects_wrong_output_type
          [OF demo_logs [of "Inr (PyTuple [PyInt 1, PyStr ''high''])" "Inr ()"]
              demo_setup [of "Inr (PyTuple [PyInt 1, PyStr ''high''])" "Inr ()"]
              demo_entry [of "Inr (PyTuple [PyInt 1, PyStr ''high''])"], of 1]
  by (simp add: demo_instance_def demo_outputs_def demo_state_def int_class_def
        isinstance_def issubclass_def cls_mro_def is_list_or_tuple_def demo_publish
        demo_success_hook)

section \<open>The step context after a run\<close>

lemma demo_invalid:
  "validate_outputs demo_step (PyInt 5) (entrypoint_outputs (demo_instance entry))
   = Inl (Exc StepInterfaceError
            (''Wrong step function output type for step trainer''
             @ '': Expected multiple outputs but the function did not return a list or tuple''))"
  by (simp add: validate_outputs_def demo_instance_def demo_outputs_def demo_step_def
        is_list_or_tuple_def isinstance_def issubclass_def cls_mro_def)

text \<open>
  C2, at the input that refutes it: the step declares two outputs and its entrypoint
  returns the integer 5. The validation raises inside the \<open>finally\<close> block, the last
  statement of the block is not reached, and the step context that the run bound is
  still live when the run has raised.
\<close>

theorem run_leaves_step_context_after_invalid_output:
  "run (demo_collaborators (Inr (PyInt 5)) (Inr ())) demo_step demo_pipeline_run demo_step_run
     [] demo_uris demo_step_run_info demo_state
   = (Inl (Exc StepInterfaceError
             (''Wrong step function output type for step trainer''
              @ '': Expected multiple outputs but the function did not return a list or tuple'')),
      demo_state\<lparr>st_step_context := Some demo_context, st_published_metadata := [[]]\<rparr>)"
  using run_invalid_outputs(3)
          [OF demo_logs [of "Inr (PyInt 5)" "Inr ()"] demo_setup [of "Inr (PyInt 5)" "Inr ()"]
              demo_entry [of "Inr (PyInt 5)"] demo_invalid demo_publish demo_success_hook]
  by (simp add: demo_state_def)

section \<open>The failure hook and the step's exception\<close>

lemma load_and_run_hook_escape:
  "load_and_run_hook c stp src ex s = (Inl e, t) \<Longrightarrow> \<not> is_Exception e"
  by (auto simp: load_and_run_hook_def split: prod.splits sum.splits if_splits)

lemma load_and_run_hook_contained:
  "hook_try_body c stp src ex s = (Inl e, t) \<Longrightarrow> is_Exception e \<Longrightarrow>
   load_and_run_hook c stp src ex s
     = (Inr (), log_msg Error
                  (''Failed to load hook source with exception: '' @ src @ '': '' @ exc_msg e) t)"
  by (simp add: load_and_run_hook_def)

lemma demo_failure_hook_escapes:
  "run_failure_handler
     (demo_collaborators entry (Inl (Exc (BaseOnly ''KeyboardInterrupt'') ''interrupted'')))
     demo_step (Exc (OtherException ''ValueError'') ''boom'')
     (demo_state\<lparr>st_step_context := Some demo_context\<rparr>)
   = (Exc (BaseOnly ''KeyboardInterrupt'') ''interrupted'',
      demo_state\<lparr>st_step_context := Some demo_context,
                  st_log := [(Info, ''Detected failure hook. Running...''),
                             (Debug, ''Running hook'')]\<rparr>)"
  by (simp add: run_failure_handler_def demo_step_def load_and_run_hook_def
        hook_try_body_def demo_collaborators_def demo_hook_def parse_hook_inputs_def
        drop_self_def parse_hook_input_def annotation_of_def
        issubclass_def cls_mro_def user_call_def log_msg_def demo_state_def)

text \<open>
  C3, at the input that refutes it: the entrypoint raises a \<open>ValueError\<close> and the
  failure hook raises \<open>KeyboardInterrupt\<close>, which \<open>except Exception\<close> does not
  catch. The run raises the hook's exception in place of the step's.
\<close>

theorem failure_hook_exception_replaces_step_exception:
  "fst (run (demo_collaborators (Inl (Exc (OtherException ''ValueError'') ''boom''))
               (Inl (Exc (BaseOnly ''KeyboardInterrupt'') ''interrupted'')))
          demo_step demo_pipeline_run demo_step_run [] demo_uris demo_step_run_info demo_state)
   = Inl (Exc (BaseOnly ''KeyboardInterrupt'') ''interrupted'')
   \<and> fst (run (demo_collaborators (Inl (Exc (OtherException ''ValueError'') ''boom''))
                 (Inl (Exc (BaseOnly ''KeyboardInterrupt'') ''interrupted'')))
            demo_step demo_pipeline_run demo_step_run [] demo_uris demo_step_run_info
            demo_state)
     \<noteq> Inl (Exc (OtherException ''ValueError'') ''boom'')"
  by (simp add: run_def demo_logs demo_setup demo_entry demo_failure_hook_escapes
        run_finally_def demo_publish)

text \<open>
  C3, amended. Take a run whose entrypoint raises, whose failure hook (if one is
  declared) raises nothing or an exception that derives from \<open>Exception\<close> while it is
  loaded and run, and whose metadata and cleanup calls in the \<open>finally\<close> block go
  through. Then the declared hook is dispatched, an exception it raised is logged as an
  error and goes no further, the run raises the step's own exception, class and message
  unchanged, and the step context is cleared.
\<close>

theorem run_reraises_step_exception:
  assumes "select_logs_context
             (step_logging_enabled (disable_step_logs_storage c) sr pr)
             (logs_redirected c) sr s = (lc, s0)"
      and "run_setup c stp pr sr ia uris sri s0 = (Inr (si, mats, params), s1)"
      and "user_call (call_entrypoint si params) s1 = (Inl step_exception, s2)"
      and "\<forall>src e t. config_failure_hook_source stp = Some src
                    \<and> hook_try_body c stp src (Some step_exception)
                        (log_msg Info ''Detected failure hook. Running...'' s2) = (Inl e, t)
             \<longrightarrow> is_Exception e"
      and "run_failure_handler c stp step_exception s2 = (in_flight, s3)"
      and "publish_metadata_and_cleanup c sri True s3 = (Inr (), s4)"
  shows "run c stp pr sr ia uris sri s = (Inl step_exception, step_context_clear s4)
         \<and> in_flight = step_exception
         \<and> (\<forall>src. config_failure_hook_source stp = Some src \<longrightarrow>
               s3 = snd (load_and_run_hook c stp src (Some step_exception)
                           (log_msg Info ''Detected failure hook. Running...'' s2)))
         \<and> (\<forall>src e t. config_failure_hook_source stp = Some src
                      \<and> hook_try_body c stp src (Some step_exception)
                          (log_msg Info ''Detected failure hook. Running...'' s2) = (Inl e, t)
               \<longrightarrow> s3 = log_msg Error
                          (''Failed to load hook source with exception: '' @ src @ '': ''
                           @ exc_msg e) t)"
proof -
  let ?s = "log_msg Info ''Detected failure hook. Running...'' s2"
  have handler: "in_flight = step_exception
      \<and> (\<forall>src. config_failure_hook_source stp = Some src \<longrightarrow>
            s3 = snd (load_and_run_hook c stp src (Some step_exception) ?s))"
  proof (cases "config_failure_hook_source stp")
    case None
    with assms(5) show ?thesis by (simp add: run_failure_handler_def)
  next
    case (Some src)
    obtain r t where r: "load_and_run_hook c stp src (Some step_exception) ?s = (r, t)"
      by (cases "load_and_run_hook c stp src (Some step_exception) ?s") auto
    show ?thesis
    proof (cases r)
      case (Inl e)
      with r have "\<not> is_Exception e" by (auto dest: load_and_run_hook_escape)
      moreover from r Inl have "hook_try_body c stp src (Some step_exception) ?s = (Inl e, t)"
        by (auto simp: load_and_run_hook_def split: prod.splits sum.splits if_splits)
      ultimately show ?thesis using assms(4) Some by blast
    next
      case (Inr u)
      with r Some assms(5) show ?thesis by (simp add: run_failure_handler_def)
    qed
  qed
  have logged: "s3 = log_msg Error
                       (''Failed to load hook source with exception: '' @ src @ '': ''
                        @ exc_msg e) t"
    if "config_failure_hook_source stp = Some src"
       "hook_try_body c stp src (Some step_exception) ?s = (Inl e, t)" for src e t
  proof -
    from that assms(4) have "is_Exception e" by blast
    with that(2) have "load_and_run_hook c stp src (Some step_exception) ?s
        = (Inr (), log_msg Error
                     (''Failed to load hook source with exception: '' @ src @ '': ''
                      @ exc_msg e) t)"
      by (rule load_and_run_hook_contained)
    with handler that(1) show ?thesis by simp
  qed
  have "run c stp pr sr ia uris sri s = (Inl step_exception, step_context_clear s4)"
    using assms(1,2,3,5,6) handler by (simp add: run_def run_finally_def)
  with handler logged show ?thesis by blast
qed

lemma demo_failure_handler:
  "run_failure_handler (demo_collaborators entry (Inl (Exc KeyError ''channel''))) demo_step
     (Exc (OtherException ''ValueError'') ''boom'')
     (demo_state\<lparr>st_step_context := Some demo_context\<rparr>)
   = (Exc (OtherException ''ValueError'') ''boom'',
      demo_state\<lparr>st_step_context := Some demo_context,
                  st_log := [(Info, ''Detected failure hook. Running...''),
                             (Debug, ''Running hook''),
                             (Error, ''Failed to load hook source with exception: hooks.alert: channel'')]\<rparr>)"
  by (simp add: run_failure_handler_def demo_step_def load_and_run_hook_def
        hook_try_body_def demo_collaborators_def demo_hook_def parse_hook_inputs_def
        drop_self_def parse_hook_input_def annotation_of_def
        issubclass_def cls_mro_def user_call_def log_msg_def demo_state_def)

theorem run_reraises_step_exception_witness:
  "run (demo_collaborators (Inl (Exc (OtherException ''ValueError'') ''boom''))
          (Inl (Exc KeyError ''channel'')))
     demo_step demo_pipeline_run demo_step_run [] demo_uris demo_step_run_info demo_state
   = (Inl (Exc (OtherException ''ValueError'') ''boom''),
      demo_state\<lparr>st_published_metadata := [[]],
                  st_log := [(Info, ''Detected failure hook. Running...''),
                             (Debug, ''Running hook''),
                             (Error, ''Failed to load hook source with exception: hooks.alert: channel'')]\<rparr>)"
proof -
  have contained:
    "\<forall>src e t. config_failure_hook_source demo_step = Some src
         \<and> hook_try_body
             (demo_collaborators (Inl (Exc (OtherException ''ValueError'') ''boom''))
                (Inl (Exc KeyError ''channel'')))
             demo_step src (Some (Exc (OtherException ''ValueError'') ''boom''))
             (log_msg Info ''Detected failure hook. Running...''
                (demo_state\<lparr>st_step_context := Some demo_context\<rparr>)) = (Inl e, t)
       \<longrightarrow> is_Exception e"
    by (auto simp: hook_try_body_def demo_collaborators_def demo_hook_def parse_hook_inputs_def
          drop_self_def parse_hook_input_def annotation_of_def
          issubclass_def cls_mro_def user_call_def)
  show ?thesis
    using run_reraises_step_exception
            [OF demo_logs [of "Inl (Exc (OtherException ''ValueError'') ''boom'')"
                              "Inl (Exc KeyError ''channel'')"]
                demo_setup [of "Inl (Exc (OtherException ''ValueError'') ''boom'')"
                               "Inl (Exc KeyError ''channel'')"]
                demo_entry [of "Inl (Exc (OtherException ''ValueError'') ''boom'')"]
                contained demo_failure_handler demo_publish]
    by (simp add: step_context_clear_def demo_state_def)
qed

section \<open>The step-log decision\<close>

text \<open>
  C7, at the input that refutes it: the step enables its logs, and with
  \<open>ENV_ZENML_DISABLE_STEP_LOGS_STORAGE\<close> set the decision is to capture none, where
  the two-level rule gives \<open>True\<close>.
\<close>

theorem step_logs_disabled_by_environment:
  "step_logging_enabled True demo_step_run demo_pipeline_run
   \<noteq> is_setting_enabled (sr_enable_step_logs demo_step_run)
       (pr_enable_step_logs demo_pipeline_run)"
  by (simp add: step_logging_enabled_def is_setting_enabled_def demo_step_run_def
        demo_pipeline_run_def)

text \<open>
  C7, amended. The step-logging flag is on exactly when
  \<open>ENV_ZENML_DISABLE_STEP_LOGS_STORAGE\<close> is not set and the two-level rule says so:
  the step's setting when it is set, else the pipeline's when it is set, else enabled.
  The logs of the step are captured, in a \<open>StepLogsStorageContext\<close> on the URI of the
  step run's logs, exactly when that flag is on, logging is not already redirected and the
  step run has a logs record; in every other case the step runs in a null context.
\<close>

theorem step_logs_capture_decision:
  "step_logging_enabled disable_logs_storage sr pr =
     (\<not> disable_logs_storage
      \<and> (case sr_enable_step_logs sr of
            Some on_step \<Rightarrow> on_step
          | None \<Rightarrow> (case pr_enable_step_logs pr of Some on_pipeline \<Rightarrow> on_pipeline | None \<Rightarrow> True)))
   \<and> fst (select_logs_context (step_logging_enabled disable_logs_storage sr pr) redirected sr s)
     = (if \<not> disable_logs_storage
           \<and> (case sr_enable_step_logs sr of
                 Some on_step \<Rightarrow> on_step
               | None \<Rightarrow>
                   (case pr_enable_step_logs pr of Some on_pipeline \<Rightarrow> on_pipeline | None \<Rightarrow> True))
           \<and> \<not> redirected
        then (case sr_logs_uri sr of
                Some uri \<Rightarrow> StepLogsStorageContext uri
              | None \<Rightarrow> NullContext)
        else NullContext)"
  by (simp add: step_logging_enabled_def is_setting_enabled_def select_logs_context_def
        split: option.splits)

theorem step_logs_capture_decision_witness:
  "fst (select_logs_context (step_logging_enabled False logged_step_run demo_pipeline_run)
          False logged_step_run demo_state)
   = StepLogsStorageContext ''s3://store/logs/2''
   \<and> fst (select_logs_context (step_logging_enabled False demo_step_run demo_pipeline_run)
            False demo_step_run demo_state)
     = NullContext
   \<and> fst (select_logs_context (step_logging_enabled False logged_step_run demo_pipeline_run)
            True logged_step_run demo_state)
     = NullContext
   \<and> fst (select_logs_context (step_logging_enabled True logged_step_run demo_pipeline_run)
            False logged_step_run demo_state)
     = NullContext
   \<and> fst (select_logs_context
            (step_logging_enabled False (logged_step_run\<lparr>sr_enable_step_logs := Some False\<rparr>)
               (demo_pipeline_run\<lparr>pr_enable_step_logs := Some True\<rparr>))
            False (logged_step_run\<lparr>sr_enable_step_logs := Some False\<rparr>) demo_state)
     = NullContext
   \<and> fst (select_logs_context
            (step_logging_enabled False (logged_step_run\<lparr>sr_enable_step_logs := None\<rparr>)
               (demo_pipeline_run\<lparr>pr_enable_step_logs := Some False\<rparr>))
            False (logged_step_run\<lparr>sr_enable_step_logs := None\<rparr>) demo_state)
     = NullContext
   \<and> fst (select_logs_context
            (step_logging_enabled False (logged_step_run\<lparr>sr_enable_step_logs := None\<rparr>)
               demo_pipeline_run)
            False (logged_step_run\<lparr>sr_enable_step_logs := None\<rparr>) demo_state)
     = StepLogsStorageContext ''s3://store/logs/2''"
  using step_logs_capture_decision [THEN conjunct2, of False logged_step_run demo_pipeline_run False demo_state]
        step_logs_capture_decision [THEN conjunct2, of False demo_step_run demo_pipeline_run False demo_state]
        step_logs_capture_decision [THEN conjunct2, of False logged_step_run demo_pipeline_run True demo_state]
        step_logs_capture_decision [THEN conjunct2, of True logged_step_run demo_pipeline_run False demo_state]
        step_logs_capture_decision
          [THEN conjunct2, of False "logged_step_run\<lparr>sr_enable_step_logs := Some False\<rparr>"
              "demo_pipeline_run\<lparr>pr_enable_step_logs := Some True\<rparr>" False demo_state]
        step_logs_capture_decision
          [THEN conjunct2, of False "logged_step_run\<lparr>sr_enable_step_logs := None\<rparr>"
              "demo_pipeline_run\<lparr>pr_enable_step_logs := Some False\<rparr>" False demo_state]
        step_logs_capture_decision
          [THEN conjunct2, of False "logged_step_run\<lparr>sr_enable_step_logs := None\<rparr>" demo_pipeline_run False
              demo_state]
  by (simp add: logged_step_run_def demo_step_run_def demo_pipeline_run_def)

section \<open>Model versions of the output artifacts\<close>

text \<open>
  C4, at the input that refutes it: two published outputs, \<open>plain\<close> with an artifact
  configuration that has no model and \<open>bound\<close> with one bound to the model
  \<open>churn\<close>. In this order the loop ends at \<open>plain\<close>: the binding of \<open>bound\<close> is
  not collected and no link is created. In the other order it is collected.
\<close>

theorem model_binding_skipped_after_unbound_artifact:
  "get_model_versions_from_artifacts (demo_collaborators (Inr PyNone) (Inr ()))
     (demo_state\<lparr>st_step_context := Some model_bound_context\<rparr>) [''plain'', ''bound'']
   = Inr []
   \<and> link_pipeline_run_to_model_from_artifacts (demo_collaborators (Inr PyNone) (Inr ()))
       demo_pipeline_run [''plain'', ''bound''] []
       (demo_state\<lparr>st_step_context := Some model_bound_context\<rparr>)
     = (Inr (), demo_state\<lparr>st_step_context := Some model_bound_context\<rparr>)
   \<and> get_model_versions_from_artifacts (demo_collaborators (Inr PyNone) (Inr ()))
       (demo_state\<lparr>st_step_context := Some model_bound_context\<rparr>) [''bound'', ''plain'']
     = Inr [(5, 1)]"
  by (simp add: get_model_versions_from_artifacts_def get_step_context_def demo_state_def
        model_bound_context_def new_step_context_def model_bound_outputs_def
        context_get_output_def demo_collaborators_def set_add_def
        link_pipeline_run_to_model_from_artifacts_def)

section \<open>The names of the stored artifacts\<close>

text \<open>
  The name the runner computes, by whether the artifact configuration declares a custom
  name; and where an output that declares a custom name is keyed by that name, as
  \<open>parse_return_type_annotations\<close> keys it, the name is the one the spec describes.
\<close>

lemma output_artifact_name_rule:
  "output_artifact_name ctx artifact_config output_name
   = (case declared_custom_name artifact_config of
        Some custom_name \<Rightarrow> output_name
      | None \<Rightarrow>
          pipeline_name_of (sc_pipeline_run ctx) @ ''::'' @ sr_name (sc_step_run ctx)
          @ ''::'' @ output_name)"
  by (auto simp: output_artifact_name_def has_custom_name_def declared_custom_name_def
        pipeline_name_of_def split: option.splits)

lemma output_artifact_name_spec:
  assumes "\<And>custom_name.
             declared_custom_name artifact_config = Some custom_name \<Longrightarrow> custom_name = output_name"
  shows "output_artifact_name ctx artifact_config output_name
         = spec_artifact_name ctx artifact_config output_name"
  using assms
  by (auto simp: output_artifact_name_def spec_artifact_name_def has_custom_name_def
        declared_custom_name_def pipeline_name_of_def split: option.splits)

lemma select_output_materializer_saved:
  "st_saved_artifacts (snd (select_output_materializer c stp mats n v s)) = st_saved_artifacts s"
  by (auto simp: select_output_materializer_def Let_def dict_get_def
        split: option.splits sum.splits)

text \<open>One output: a failure saves nothing, a success saves one request for it.\<close>

lemma store_output_artifact_request:
  assumes "store_output_artifact c stp ctx mats uris anns md vis n v s = (r, s')"
  shows "(isl r \<longrightarrow> st_saved_artifacts s' = st_saved_artifacts s)
         \<and> (\<not> isl r \<longrightarrow>
               (\<exists>rq sg. st_saved_artifacts s' = st_saved_artifacts s @ [rq]
                        \<and> map_of anns n = Some sg \<and> sv_data rq = v
                        \<and> sv_name rq = output_artifact_name ctx (os_artifact_config sg) n))"
proof -
  obtain x t where sel: "select_output_materializer c stp mats n v s = (x, t)"
    by (cases "select_output_materializer c stp mats n v s") auto
  have t: "st_saved_artifacts t = st_saved_artifacts s"
    using select_output_materializer_saved [of c stp mats n v s] sel by simp
  show ?thesis
  proof (cases x)
    case (Inl e)
    with sel have "store_output_artifact c stp ctx mats uris anns md vis n v s = (Inl e, t)"
      by (simp add: store_output_artifact_def)
    with assms t show ?thesis by auto
  next
    case m: (Inr m)
    show ?thesis
    proof (cases "map_of uris n")
      case None
      with sel m have "isl (fst (store_output_artifact c stp ctx mats uris anns md vis n v s))"
          "snd (store_output_artifact c stp ctx mats uris anns md vis n v s) = t"
        by (simp_all add: store_output_artifact_def dict_get_def)
      with assms t show ?thesis by auto
    next
      case uri: (Some uri)
      show ?thesis
      proof (cases "map_of anns n")
        case None
        with sel m uri
        have "isl (fst (store_output_artifact c stp ctx mats uris anns md vis n v s))"
            "snd (store_output_artifact c stp ctx mats uris anns md vis n v s) = t"
          by (simp_all add: store_output_artifact_def dict_get_def)
        with assms t show ?thesis by auto
      next
        case sg: (Some sg)
        let ?rq = "\<lparr>sv_name = output_artifact_name ctx (os_artifact_config sg) n,
                     sv_data = v, sv_materializer = m, sv_uri = uri,
                     sv_extract_metadata = md, sv_include_visualizations = vis,
                     sv_has_custom_name = has_custom_name (os_artifact_config sg),
                     sv_version = artifact_version_of (os_artifact_config sg),
                     sv_tags = get_output_tags ctx n,
                     sv_user_metadata = get_output_metadata ctx n,
                     sv_manual_save = False\<rparr>"
        show ?thesis
        proof (cases "save_artifact c ?rq")
          case (Inl e)
          with sel m uri sg
          have "store_output_artifact c stp ctx mats uris anns md vis n v s = (Inl e, t)"
            by (simp add: store_output_artifact_def dict_get_def Let_def)
          with assms t show ?thesis by auto
        next
          case (Inr aid)
          with sel m uri sg
          have "store_output_artifact c stp ctx mats uris anns md vis n v s
                = (Inr aid, t\<lparr>st_saved_artifacts := st_saved_artifacts t @ [?rq]\<rparr>)"
            by (simp add: store_output_artifact_def dict_get_def Let_def)
          with assms t sg show ?thesis by auto
        qed
      qed
    qed
  qed
qed

lemma store_loop_requests:
  "store_loop c stp ctx mats uris anns md vis output_data ids s = (r, s') \<Longrightarrow>
   \<exists>reqs. st_saved_artifacts s' = st_saved_artifacts s @ reqs
          \<and> length reqs \<le> length output_data
          \<and> (\<not> isl r \<longrightarrow> length reqs = length output_data)
          \<and> list_all2
               (\<lambda>rq (n, v). \<exists>sg. map_of anns n = Some sg \<and> sv_data rq = v
                   \<and> sv_name rq = output_artifact_name ctx (os_artifact_config sg) n)
               reqs (take (length reqs) output_data)"
proof (induction output_data arbitrary: ids s)
  case Nil
  then show ?case by simp
next
  case (Cons p rest)
  obtain n v where p: "p = (n, v)" by (cases p)
  obtain x t where one: "store_output_artifact c stp ctx mats uris anns md vis n v s = (x, t)"
    by (cases "store_output_artifact c stp ctx mats uris anns md vis n v s") auto
  note req = store_output_artifact_request [OF one]
  show ?case
  proof (cases x)
    case (Inl e)
    with Cons.prems p one req have "r = Inl e" "st_saved_artifacts s' = st_saved_artifacts s"
      by auto
    then show ?thesis by (intro exI [of _ "[]"]) simp
  next
    case (Inr aid)
    with Cons.prems p one
    have rest: "store_loop c stp ctx mats uris anns md vis rest (AList.update n aid ids) t = (r, s')"
      by simp
    from Inr req obtain rq sg where
      rq: "st_saved_artifacts t = st_saved_artifacts s @ [rq]" "map_of anns n = Some sg"
          "sv_data rq = v"
          "sv_name rq = output_artifact_name ctx (os_artifact_config sg) n"
      by auto
    from Cons.IH [OF rest] obtain reqs where
      reqs: "st_saved_artifacts s' = st_saved_artifacts t @ reqs"
            "length reqs \<le> length rest" "\<not> isl r \<longrightarrow> length reqs = length rest"
            "list_all2
               (\<lambda>rq (n, v). \<exists>sg. map_of anns n = Some sg \<and> sv_data rq = v
                   \<and> sv_name rq = output_artifact_name ctx (os_artifact_config sg) n)
               reqs (take (length reqs) rest)"
      by blast
    show ?thesis
      using rq reqs p by (intro exI [of _ "rq # reqs"]) simp
  qed
qed

text \<open>
  C6, at the input that refutes it: an output keyed \<open>output_0\<close> whose artifact
  configuration declares the custom name \<open>features\<close>. The artifact is stored under
  the output's key, \<open>output_0\<close>: line 605 takes \<open>output_name\<close> and the
  configuration's name is not read.
\<close>

theorem artifact_named_by_output_key:
  "map sv_name
     (st_saved_artifacts
        (snd (store_output_artifacts (demo_collaborators (Inr PyNone) (Inr ())) demo_step
                [(''output_0'', PyInt 1)] [(''output_0'', [int_materializer])]
                [(''output_0'', ''s3://store/0'')] renamed_outputs True True
                (demo_state\<lparr>st_step_context := Some renamed_context\<rparr>))))
   = [''output_0'']
   \<and> map_of renamed_outputs ''output_0''
     = Some \<lparr>resolved_annotation = ClassT int_class, os_artifact_config = Some features_config\<rparr>
   \<and> declared_custom_name (Some features_config) = Some ''features''
   \<and> spec_artifact_name renamed_context (Some features_config) ''output_0'' = ''features''"
  by (simp add: store_output_artifacts_def get_step_context_def demo_state_def
        store_output_artifact_def select_output_materializer_def dict_get_def
        select_materializer_def can_handle_type_def issubclass_def cls_mro_def
        int_materializer_def renamed_outputs_def features_config_def output_artifact_name_def
        has_custom_name_def artifact_version_of_def get_output_tags_def
        get_output_metadata_def renamed_context_def new_step_context_def
        demo_collaborators_def declared_custom_name_def spec_artifact_name_def)

text \<open>
  C6, amended. \<open>_store_output_artifacts\<close> saves one artifact for each output it gets
  to, in order (for all of them when it returns). The name it gives the artifact of an
  output is the output's name, its key in the output annotations, when the output's
  artifact configuration declares a custom name, and \<open>pipeline::step::output\<close>
  otherwise, built from the name of the run's pipeline (\<open>unlisted\<close> for a run without
  one), the name of the step run and the output's name. So the artifact bears the
  configured custom name where the output is keyed by it, and only there.
\<close>

theorem stored_artifact_names:
  assumes "store_output_artifacts c stp output_data mats uris anns md vis s = (r, s')"
  shows "\<exists>reqs. st_saved_artifacts s' = st_saved_artifacts s @ reqs
            \<and> length reqs \<le> length output_data
            \<and> (\<not> isl r \<longrightarrow> length reqs = length output_data)
            \<and> (\<forall>i < length reqs.
                  \<exists>ctx sg. st_step_context s = Some ctx
                    \<and> map_of anns (fst (output_data ! i)) = Some sg
                    \<and> sv_data (reqs ! i) = snd (output_data ! i)
                    \<and> sv_name (reqs ! i)
                        = (case declared_custom_name (os_artifact_config sg) of
                             Some custom_name \<Rightarrow> fst (output_data ! i)
                           | None \<Rightarrow>
                               pipeline_name_of (sc_pipeline_run ctx) @ ''::''
                               @ sr_name (sc_step_run ctx) @ ''::'' @ fst (output_data ! i))
                    \<and> (sv_name (reqs ! i)
                           = spec_artifact_name ctx (os_artifact_config sg) (fst (output_data ! i))
                         \<longleftrightarrow> declared_custom_name (os_artifact_config sg) = None
                             \<or> declared_custom_name (os_artifact_config sg)
                                = Some (fst (output_data ! i))))"
proof (cases "st_step_context s")
  case None
  with assms(1) have "s' = s" "isl r"
    by (auto simp: store_output_artifacts_def get_step_context_def)
  then show ?thesis by (intro exI [of _ "[]"]) simp
next
  case (Some ctx)
  with assms(1)
  have "store_loop c stp ctx mats uris anns md vis output_data [] s = (r, s')"
    by (simp add: store_output_artifacts_def get_step_context_def)
  from store_loop_requests [OF this] obtain reqs where
    reqs: "st_saved_artifacts s' = st_saved_artifacts s @ reqs"
          "length reqs \<le> length output_data" "\<not> isl r \<longrightarrow> length reqs = length output_data"
          "list_all2
             (\<lambda>rq (n, v). \<exists>sg. map_of anns n = Some sg \<and> sv_data rq = v
                 \<and> sv_name rq = output_artifact_name ctx (os_artifact_config sg) n)
             reqs (take (length reqs) output_data)"
    by blast
  have "\<exists>sg. map_of anns (fst (output_data ! i)) = Some sg
          \<and> sv_data (reqs ! i) = snd (output_data ! i)
          \<and> sv_name (reqs ! i)
              = (case declared_custom_name (os_artifact_config sg) of
                   Some custom_name \<Rightarrow> fst (output_data ! i)
                 | None \<Rightarrow>
                     pipeline_name_of (sc_pipeline_run ctx) @ ''::''
                     @ sr_name (sc_step_run ctx) @ ''::'' @ fst (output_data ! i))
          \<and> (sv_name (reqs ! i)
                 = spec_artifact_name ctx (os_artifact_config sg) (fst (output_data ! i))
               \<longleftrightarrow> declared_custom_name (os_artifact_config sg) = None
                   \<or> declared_custom_name (os_artifact_config sg)
                      = Some (fst (output_data ! i)))"
    if "i < length reqs" for i
  proof -
    obtain n v where nv: "output_data ! i = (n, v)" by (cases "output_data ! i")
    from reqs(4) that
    have "(\<lambda>rq (n, v). \<exists>sg. map_of anns n = Some sg \<and> sv_data rq = v
              \<and> sv_name rq = output_artifact_name ctx (os_artifact_config sg) n)
            (reqs ! i) (take (length reqs) output_data ! i)"
      by (rule list_all2_nthD)
    with that nv
    obtain sg where sg: "map_of anns (fst (output_data ! i)) = Some sg"
        "sv_data (reqs ! i) = snd (output_data ! i)"
        "sv_name (reqs ! i)
           = output_artifact_name ctx (os_artifact_config sg) (fst (output_data ! i))"
      by auto
    note name = sg(3) [unfolded output_artifact_name_rule]
    have "sv_name (reqs ! i)
            = spec_artifact_name ctx (os_artifact_config sg) (fst (output_data ! i))
          \<longleftrightarrow> declared_custom_name (os_artifact_config sg) = None
              \<or> declared_custom_name (os_artifact_config sg) = Some (fst (output_data ! i))"
      using name by (auto simp: spec_artifact_name_def split: option.splits)
    with sg(1,2) name show ?thesis by blast
  qed
  with reqs Some show ?thesis by (intro exI [of _ reqs]) simp
qed

lemma mixed_store:
  "store_output_artifacts (demo_collaborators (Inr PyNone) (Inr ())) demo_step
     [(''features'', PyInt 1), (''output_1'', PyInt 2)]
     [(''features'', [int_materializer]), (''output_1'', [int_materializer])]
     [(''features'', ''s3://store/0''), (''output_1'', ''s3://store/1'')]
     mixed_outputs True True
     (demo_state\<lparr>st_step_context := Some mixed_context\<rparr>)
   = (Inr [(''features'', 8), (''output_1'', 27)],
      demo_state\<lparr>st_step_context := Some mixed_context,
        st_saved_artifacts :=
          [\<lparr>sv_name = ''features'', sv_data = PyInt 1, sv_materializer = int_materializer,
            sv_uri = ''s3://store/0'', sv_extract_metadata = True,
            sv_include_visualizations = True, sv_has_custom_name = True, sv_version = None,
            sv_tags = [], sv_user_metadata = [], sv_manual_save = False\<rparr>,
           \<lparr>sv_name = ''training::trainer::output_1'', sv_data = PyInt 2,
            sv_materializer = int_materializer,
            sv_uri = ''s3://store/1'', sv_extract_metadata = True,
            sv_include_visualizations = True, sv_has_custom_name = False, sv_version = None,
            sv_tags = [], sv_user_metadata = [], sv_manual_save = False\<rparr>]\<rparr>)"
  by (simp add: store_output_artifacts_def get_step_context_def demo_state_def
        store_output_artifact_def select_output_materializer_def dict_get_def
        select_materializer_def can_handle_type_def issubclass_def cls_mro_def
        int_materializer_def mixed_outputs_def features_config_def output_artifact_name_def
        has_custom_name_def artifact_version_of_def get_output_tags_def
        get_output_metadata_def mixed_context_def new_step_context_def
        demo_collaborators_def demo_pipeline_run_def demo_step_run_def)

theorem stored_artifact_names_witness:
  "\<exists>reqs.
     st_saved_artifacts
       (demo_state\<lparr>st_step_context := Some mixed_context,
          st_saved_artifacts :=
            [\<lparr>sv_name = ''features'', sv_data = PyInt 1, sv_materializer = int_materializer,
              sv_uri = ''s3://store/0'', sv_extract_metadata = True,
              sv_include_visualizations = True, sv_has_custom_name = True, sv_version = None,
              sv_tags = [], sv_user_metadata = [], sv_manual_save = False\<rparr>,
             \<lparr>sv_name = ''training::trainer::output_1'', sv_data = PyInt 2,
              sv_materializer = int_materializer,
              sv_uri = ''s3://store/1'', sv_extract_metadata = True,
              sv_include_visualizations = True, sv_has_custom_name = False, sv_version = None,
              sv_tags = [], sv_user_metadata = [], sv_manual_save = False\<rparr>]\<rparr>)
     = st_saved_artifacts (demo_state\<lparr>st_step_context := Some mixed_context\<rparr>) @ reqs
     \<and> length reqs \<le> length [(''features'', PyInt 1), (''output_1'', PyInt 2)]
     \<and> (\<not> isl (Inr [(''features'', 8), (''output_1'', 27)] :: exc + (string \<times> uuid) list)
          \<longrightarrow> length reqs = length [(''features'', PyInt 1), (''output_1'', PyInt 2)])
     \<and> (\<forall>i < length reqs.
           \<exists>ctx sg.
             st_step_context (demo_state\<lparr>st_step_context := Some mixed_context\<rparr>) = Some ctx
             \<and> map_of mixed_outputs (fst ([(''features'', PyInt 1), (''output_1'', PyInt 2)] ! i))
                 = Some sg
             \<and> sv_data (reqs ! i) = snd ([(''features'', PyInt 1), (''output_1'', PyInt 2)] ! i)
             \<and> sv_name (reqs ! i)
                 = (case declared_custom_name (os_artifact_config sg) of
                      Some custom_name \<Rightarrow> fst ([(''features'', PyInt 1), (''output_1'', PyInt 2)] ! i)
                    | None \<Rightarrow>
                        pipeline_name_of (sc_pipeline_run ctx) @ ''::''
                        @ sr_name (sc_step_run ctx) @ ''::''
                        @ fst ([(''features'', PyInt 1), (''output_1'', PyInt 2)] ! i))
             \<and> (sv_name (reqs ! i)
                    = spec_artifact_name ctx (os_artifact_config sg)
                        (fst ([(''features'', PyInt 1), (''output_1'', PyInt 2)] ! i))
                  \<longleftrightarrow> declared_custom_name (os_artifact_config sg) = None
                      \<or> declared_custom_name (os_artifact_config sg)
                         = Some (fst ([(''features'', PyInt 1), (''output_1'', PyInt 2)] ! i))))"
  by (rule stored_artifact_names [OF mixed_store])

section \<open>Materializer selection\<close>

text \<open>
  C8. The materializer of an output is a function of the declared candidates, the
  value's runtime type and the registry. With a non-empty candidate list it is
  \<open>select_materializer\<close>'s choice, the first candidate in declaration order that
  matches the runtime type, and the state is left as it was. With no candidates it is
  the registry's entry for the exact runtime type and, when there is none, the default
  entry: the registry's own, or the one the output's default materializer source sets,
  which is written to the registry first.
\<close>

theorem output_materializer_selection:
  "(dict_get output_materializers output_name = Inr candidates \<and> candidates \<noteq> [] \<longrightarrow>
      select_output_materializer c stp output_materializers output_name return_value s
        = (select_materializer (type_of return_value) candidates, s)
      \<and> (\<forall>m. select_materializer (type_of return_value) candidates = Inr m \<longrightarrow>
            (\<exists>i < length candidates.
               candidates ! i = m \<and> can_handle_type m (type_of return_value)
               \<and> (\<forall>j < i. \<not> can_handle_type (candidates ! j) (type_of return_value)))))
   \<and> (dict_get output_materializers output_name = Inr []
        \<and> dict_get (config_outputs stp) output_name = Inr output
        \<and> default_materializer_source output = None \<longrightarrow>
      select_output_materializer c stp output_materializers output_name return_value s
        = (Inr (case map_of (materializer_types (st_registry s))
                       (cls_name (type_of return_value)) of
                  Some exact \<Rightarrow> exact
                | None \<Rightarrow> default_materializer (st_registry s)), s))
   \<and> (dict_get output_materializers output_name = Inr []
        \<and> dict_get (config_outputs stp) output_name = Inr output
        \<and> default_materializer_source output = Some default_source
        \<and> load_and_validate_class c default_source = Inr loaded_default \<longrightarrow>
      select_output_materializer c stp output_materializers output_name return_value s
        = (Inr (case map_of (materializer_types (st_registry s))
                       (cls_name (type_of return_value)) of
                  Some exact \<Rightarrow> exact
                | None \<Rightarrow> loaded_default),
           s\<lparr>st_registry := (st_registry s)\<lparr>default_materializer := loaded_default\<rparr>\<rparr>))"
proof -
  have first: "\<exists>i < length candidates.
                 candidates ! i = m \<and> can_handle_type m (type_of return_value)
                 \<and> (\<forall>j < i. \<not> can_handle_type (candidates ! j) (type_of return_value))"
    if "select_materializer (type_of return_value) candidates = Inr m" for m
  proof -
    from that have "find (\<lambda>m. can_handle_type m (type_of return_value)) candidates = Some m"
      by (simp add: select_materializer_def split: option.splits)
    then show ?thesis by (auto simp: find_Some_iff)
  qed
  show ?thesis
    using first
    by (auto simp: select_output_materializer_def registry_getitem_def Let_def
          split: option.splits)
qed

theorem output_materializer_selection_witness:
  "select_output_materializer (demo_collaborators (Inr PyNone) (Inr ())) demo_step
     [(''output_0'', [int_materializer, pickle_materializer])] ''output_0'' PyNone
     demo_state
   = (Inr pickle_materializer, demo_state)
   \<and> select_output_materializer (demo_collaborators (Inr PyNone) (Inr ())) demo_step
       [(''output_0'', [])] ''output_0'' (PyStr ''abc'') demo_state
     = (Inr pickle_materializer, demo_state)
   \<and> select_output_materializer (demo_collaborators (Inr PyNone) (Inr ())) demo_step
       [(''output_0'', [])] ''output_0'' (PyInt 3) demo_state
     = (Inr int_materializer, demo_state)"
  using output_materializer_selection
          [of "[(''output_0'', [int_materializer, pickle_materializer])]" "''output_0''"
              "[int_materializer, pickle_materializer]"
              "demo_collaborators (Inr PyNone) (Inr ())" demo_step PyNone demo_state]
        output_materializer_selection
          [of "[(''output_0'', [])]" "''output_0''" "[int_materializer]"
              "demo_collaborators (Inr PyNone) (Inr ())" demo_step "PyStr ''abc''" demo_state
              "\<lparr>materializer_source = [''materializers.builtin''],
                default_materializer_source = None\<rparr>"]
        output_materializer_selection
          [of "[(''output_0'', [])]" "''output_0''" "[int_materializer]"
              "demo_collaborators (Inr PyNone) (Inr ())" demo_step "PyInt 3" demo_state
              "\<lparr>materializer_source = [''materializers.builtin''],
                default_materializer_source = None\<rparr>"]
  by (simp add: dict_get_def select_materializer_def can_handle_type_def issubclass_def
        cls_mro_def pickle_materializer_def int_materializer_def demo_step_def demo_state_def)

section \<open>The sources of an entrypoint argument\<close>

lemma parse_input_context:
  "st_step_context (snd (parse_input c stp anns ia arg s)) = st_step_context s"
  by (simp add: parse_input_def Let_def log_msg_def split: option.splits)

lemma parse_input_same_value:
  "st_step_context s1 = st_step_context s2 \<Longrightarrow>
   fst (parse_input c stp anns ia arg s1) = fst (parse_input c stp anns ia arg s2)"
  by (simp add: parse_input_def Let_def log_msg_def get_step_context_def split: option.splits)

text \<open>
  What a finished loop has bound: every argument to the value that its own branch gives
  in the starting state, and nothing else.
\<close>

lemma parse_inputs_loop_values:
  "parse_inputs_loop c stp anns ia args fp0 s = (Inr fp, s') \<Longrightarrow>
     (\<forall>arg \<in> set args. \<exists>v. fst (parse_input c stp anns ia arg s) = Inr v \<and> map_of fp arg = Some v)
     \<and> (\<forall>a. a \<notin> set args \<longrightarrow> map_of fp a = map_of fp0 a)"
proof (induction args arbitrary: fp0 s)
  case Nil
  then show ?case by simp
next
  case (Cons arg rest)
  from Cons.prems obtain v s1 where
    step: "parse_input c stp anns ia arg s = (Inr v, s1)" and
    rest: "parse_inputs_loop c stp anns ia rest (AList.update arg v fp0) s1 = (Inr fp, s')"
    by (auto elim!: and_then_cases)
  have ctx: "st_step_context s1 = st_step_context s"
    using parse_input_context [of c stp anns ia arg s] step by simp
  note IH = Cons.IH [OF rest]
  have same: "\<And>a. fst (parse_input c stp anns ia a s1) = fst (parse_input c stp anns ia a s)"
    by (rule parse_input_same_value) (rule ctx)
  have head: "map_of fp arg = Some v"
  proof (cases "arg \<in> set rest")
    case True
    with IH obtain v' where
      "fst (parse_input c stp anns ia arg s1) = Inr v'" "map_of fp arg = Some v'"
      by blast
    with same [of arg] step show ?thesis by simp
  next
    case False
    with IH have "map_of fp arg = map_of (AList.update arg v fp0) arg" by blast
    then show ?thesis by (simp add: update_conv')
  qed
  show ?case
  proof (intro conjI ballI allI impI)
    fix a assume "a \<in> set (arg # rest)"
    then show "\<exists>v. fst (parse_input c stp anns ia a s) = Inr v \<and> map_of fp a = Some v"
      using head step IH same by (cases "a = arg") auto
  next
    fix a assume "a \<notin> set (arg # rest)"
    then show "map_of fp a = map_of fp0 a"
      using IH by (simp add: update_conv')
  qed
qed

text \<open>
  C9. An argument is resolved from the first source that has it, in a fixed order. One
  annotated with \<open>StepContext\<close> (or a subclass) gets the live step context. Any other
  argument named in the input artifacts gets the loaded artifact, whether or not a
  parameter of that name exists. One that is not named there gets the parameter of its
  name. One that has neither raises \<open>RuntimeError\<close>, and \<open>_parse_inputs\<close> fails
  when it has such an argument. When \<open>_parse_inputs\<close> returns, every argument (a
  leading \<open>self\<close> apart) is bound to the value that this order gives it.
\<close>

theorem parse_inputs_precedence:
  "(is_step_context_class (annotation_of annotations arg) \<and> st_step_context s \<noteq> None \<longrightarrow>
      fst (parse_input c stp annotations input_artifacts arg s) = Inr PyStepContext)
   \<and> (\<not> is_step_context_class (annotation_of annotations arg)
        \<and> map_of input_artifacts arg = Some artifact \<longrightarrow>
      parse_input c stp annotations input_artifacts arg s
        = (load_input_artifact c artifact (annotation_of annotations arg), s))
   \<and> (\<not> is_step_context_class (annotation_of annotations arg)
        \<and> map_of input_artifacts arg = None \<and> map_of (config_parameters stp) arg = Some v \<longrightarrow>
      parse_input c stp annotations input_artifacts arg s = (Inr v, s))
   \<and> (\<not> is_step_context_class (annotation_of annotations arg)
        \<and> map_of input_artifacts arg = None \<and> map_of (config_parameters stp) arg = None \<longrightarrow>
      (\<exists>m. parse_input c stp annotations input_artifacts arg s = (Inl (Exc RuntimeError m), s))
      \<and> (arg \<in> set (drop_self args) \<longrightarrow>
           isl (fst (parse_inputs c stp args annotations input_artifacts s))))
   \<and> (parse_inputs c stp args annotations input_artifacts s = (Inr function_params, s')
        \<and> arg \<in> set (drop_self args) \<longrightarrow>
      (\<exists>x. fst (parse_input c stp annotations input_artifacts arg s) = Inr x
            \<and> map_of function_params arg = Some x))"
proof -
  have whole: "\<exists>x. fst (parse_input c stp annotations input_artifacts arg s) = Inr x
                 \<and> map_of fp arg = Some x"
    if "parse_inputs c stp args annotations input_artifacts s = (Inr fp, t)"
       "arg \<in> set (drop_self args)" for fp t
    using that
      parse_inputs_loop_values [of c stp annotations input_artifacts "drop_self args" "[]" s fp t]
    by (simp add: parse_inputs_def)
  have missing: "isl (fst (parse_inputs c stp args annotations input_artifacts s))"
    if "\<not> is_step_context_class (annotation_of annotations arg)"
       "map_of input_artifacts arg = None" "map_of (config_parameters stp) arg = None"
       "arg \<in> set (drop_self args)"
  proof (cases "parse_inputs c stp args annotations input_artifacts s")
    case (Pair r t)
    show ?thesis
    proof (cases r)
      case (Inl e)
      with Pair show ?thesis by simp
    next
      case (Inr fp)
      with Pair whole [of fp t] that show ?thesis
        by (auto simp: parse_input_def Let_def)
    qed
  qed
  show ?thesis
    using whole missing
    by (auto simp: parse_input_def Let_def get_step_context_def log_msg_def)
qed

theorem parse_inputs_precedence_witness:
  "parse_input (demo_collaborators (Inr PyNone) (Inr ()))
     (demo_step\<lparr>config_parameters := [(''data'', PyInt 0), (''epochs'', PyInt 3)]\<rparr>)
     [(''data'', ClassT int_class)]
     [(''data'', \<lparr>av_id = 9, av_uri = ''s3://store/9'', av_data_type = ''builtins.int'',
                   av_materializer = ''materializers.builtin''\<rparr>)]
     ''data'' demo_state
   = (Inr (PyInt 7), demo_state)
   \<and> parse_input (demo_collaborators (Inr PyNone) (Inr ()))
       (demo_step\<lparr>config_parameters := [(''data'', PyInt 0), (''epochs'', PyInt 3)]\<rparr>)
       [(''data'', ClassT int_class)]
       [(''data'', \<lparr>av_id = 9, av_uri = ''s3://store/9'', av_data_type = ''builtins.int'',
                     av_materializer = ''materializers.builtin''\<rparr>)]
       ''epochs'' demo_state
     = (Inr (PyInt 3), demo_state)
   \<and> isl (fst (parse_inputs (demo_collaborators (Inr PyNone) (Inr ()))
                  (demo_step\<lparr>config_parameters := [(''data'', PyInt 0), (''epochs'', PyInt 3)]\<rparr>)
                  [''self'', ''data'', ''rate'']
                  [(''data'', ClassT int_class)]
                  [(''data'', \<lparr>av_id = 9, av_uri = ''s3://store/9'',
                                av_data_type = ''builtins.int'',
                                av_materializer = ''materializers.builtin''\<rparr>)]
                  demo_state))"
  using parse_inputs_precedence
          [where arg = "''data''" and annotations = "[(''data'', ClassT int_class)]"
             and c = "demo_collaborators (Inr PyNone) (Inr ())"
             and stp = "demo_step\<lparr>config_parameters := [(''data'', PyInt 0), (''epochs'', PyInt 3)]\<rparr>"
             and input_artifacts =
               "[(''data'', \<lparr>av_id = 9, av_uri = ''s3://store/9'', av_data_type = ''builtins.int'',
                              av_materializer = ''materializers.builtin''\<rparr>)]"
             and artifact = "\<lparr>av_id = 9, av_uri = ''s3://store/9'', av_data_type = ''builtins.int'',
                              av_materializer = ''materializers.builtin''\<rparr>"
             and s = demo_state]
        parse_inputs_precedence
          [where arg = "''epochs''" and annotations = "[(''data'', ClassT int_class)]"
             and c = "demo_collaborators (Inr PyNone) (Inr ())"
             and stp = "demo_step\<lparr>config_parameters := [(''data'', PyInt 0), (''epochs'', PyInt 3)]\<rparr>"
             and input_artifacts =
               "[(''data'', \<lparr>av_id = 9, av_uri = ''s3://store/9'', av_data_type = ''builtins.int'',
                              av_materializer = ''materializers.builtin''\<rparr>)]"
             and v = "PyInt 3" and s = demo_state]
        parse_inputs_precedence
          [where arg = "''rate''" and annotations = "[(''data'', ClassT int_class)]"
             and c = "demo_collaborators (Inr PyNone) (Inr ())"
             and stp = "demo_step\<lparr>config_parameters := [(''data'', PyInt 0), (''epochs'', PyInt 3)]\<rparr>"
             and input_artifacts =
               "[(''data'', \<lparr>av_id = 9, av_uri = ''s3://store/9'', av_data_type = ''builtins.int'',
                              av_materializer = ''materializers.builtin''\<rparr>)]"
             and args = "[''self'', ''data'', ''rate'']" and s = demo_state]
  by (simp add: annotation_of_def is_step_context_class_def
        issubclass_def cls_mro_def int_class_def demo_step_def drop_self_def
        load_input_artifact_def validate_type_compatibility_def demo_collaborators_def
        can_handle_type_def int_materializer_def)

end
